theory Spec2Isabelle
  imports Complex_Main "HOL-Library.Product_Lexorder"
begin

section \<open>Floating-point values and Python errors\<close>

text \<open>
  The program computes on NumPy \<open>float64\<close> arrays. A float is modelled as a value of
  \<open>fl\<close>: not-a-number, the two infinities, or a finite value, which is a real (no
  overflow, no signed zero). The arithmetic below follows IEEE 754 on the special
  values: NaN is absorbing, \<open>inf - inf\<close> and \<open>inf * 0\<close> are NaN, every comparison with
  NaN is false. Finite arithmetic is exact, except in \<open>var_backtest\<close>, whose result is
  decided by comparing computed values and which rounds each operation. Input arrays
  (returns, exposures, weights) hold finite values and are real lists.
\<close>

datatype fl = NaN | MInf | Fin real | PInf

datatype error = ValueError | IndexError

fun fl_neg :: "fl \<Rightarrow> fl" where
  "fl_neg NaN = NaN"
| "fl_neg MInf = PInf"
| "fl_neg PInf = MInf"
| "fl_neg (Fin x) = Fin (- x)"

fun fl_abs :: "fl \<Rightarrow> fl" where
  "fl_abs NaN = NaN"
| "fl_abs MInf = PInf"
| "fl_abs PInf = PInf"
| "fl_abs (Fin x) = Fin \<bar>x\<bar>"

fun fl_add :: "fl \<Rightarrow> fl \<Rightarrow> fl" where
  "fl_add NaN _ = NaN"
| "fl_add _ NaN = NaN"
| "fl_add PInf MInf = NaN"
| "fl_add MInf PInf = NaN"
| "fl_add PInf _ = PInf"
| "fl_add _ PInf = PInf"
| "fl_add MInf _ = MInf"
| "fl_add _ MInf = MInf"
| "fl_add (Fin x) (Fin y) = Fin (x + y)"

definition fl_sub :: "fl \<Rightarrow> fl \<Rightarrow> fl" where
  "fl_sub a b = fl_add a (fl_neg b)"

text \<open>The sign of a float that is not NaN, as \<open>-1\<close>, \<open>0\<close> or \<open>1\<close>.\<close>

fun fl_sign :: "fl \<Rightarrow> int" where
  "fl_sign NaN = 0"
| "fl_sign MInf = - 1"
| "fl_sign PInf = 1"
| "fl_sign (Fin x) = (if x < 0 then - 1 else if x = 0 then 0 else 1)"

fun fl_mul :: "fl \<Rightarrow> fl \<Rightarrow> fl" where
  "fl_mul NaN _ = NaN"
| "fl_mul _ NaN = NaN"
| "fl_mul (Fin x) (Fin y) = Fin (x * y)"
| "fl_mul a b =
     (let s = fl_sign a * fl_sign b
      in if s = 0 then NaN else if s < 0 then MInf else PInf)"

fun fl_lt :: "fl \<Rightarrow> fl \<Rightarrow> bool" where
  "fl_lt NaN _ = False"
| "fl_lt _ NaN = False"
| "fl_lt _ MInf = False"
| "fl_lt MInf _ = True"
| "fl_lt PInf _ = False"
| "fl_lt (Fin x) PInf = True"
| "fl_lt (Fin x) (Fin y) = (x < y)"

text \<open>\<open>np.sqrt\<close> of a finite float: NaN (with a warning only) below zero.\<close>

definition np_sqrt :: "real \<Rightarrow> fl" where
  "np_sqrt x = (if x < 0 then NaN else Fin (sqrt x))"

text \<open>
  Rounding. \<open>rne\<close> rounds a real to the nearest integer, ties to the even one.
  \<open>round64\<close> rounds a real to the nearest number with a significand of 53 bits, ties
  to even, as every binary64 operation does with its exact result; the exponent is not
  bounded (no overflow to infinity, no subnormal numbers).
\<close>

definition rne :: "real \<Rightarrow> int" where
  "rne x =
     (let f = \<lfloor>x\<rfloor>; d = x - real_of_int f
      in if d < 1 / 2 then f else if 1 / 2 < d then f + 1 else if even f then f else f + 1)"

definition round64 :: "real \<Rightarrow> real" where
  "round64 x =
     (if x = 0 then 0
      else let ulp = 2 powr (real_of_int \<lfloor>log 2 \<bar>x\<bar>\<rfloor> - 52)
           in real_of_int (rne (x / ulp)) * ulp)"

section \<open>NumPy reductions\<close>

text \<open>
  \<open>a.mean()\<close> of an empty array is NaN (NumPy warns and returns \<open>0/0\<close>);
  \<open>a.std()\<close> is the population standard deviation (\<open>ddof = 0\<close>). Both are the exact
  values: the rounding of the float64 summation is not modelled, so a float64 mean can
  differ from \<open>np_mean\<close> in its last places, and nothing below orders a mean against
  the values it averages.
\<close>

definition np_mean :: "real list \<Rightarrow> fl" where
  "np_mean xs = (if xs = [] then NaN else Fin (sum_list xs / real (length xs)))"

definition np_std :: "real list \<Rightarrow> fl" where
  "np_std xs =
     (if xs = [] then NaN
      else let m = sum_list xs / real (length xs)
           in Fin (sqrt (sum_list (map (\<lambda>x. (x - m)\<^sup>2) xs) / real (length xs))))"

text \<open>
  \<open>np.percentile(a, q)\<close> with the default linear method. The percentile is checked
  first (\<open>ValueError\<close> outside \<open>[0, 100]\<close>); an empty sample has no last element
  (\<open>IndexError\<close>); a sample holding a NaN gives NaN (NaN sorts last and is looked
  for there). Otherwise the sorted sample is read at the two neighbours of the virtual
  index \<open>(n - 1) * q / 100\<close> and interpolated by \<open>_lerp\<close>, which switches to the
  mirrored formula from \<open>t = 0.5\<close> on.
\<close>

fun fl_key :: "fl \<Rightarrow> nat \<times> real" where
  "fl_key MInf = (0, 0)"
| "fl_key (Fin x) = (1, x)"
| "fl_key PInf = (2, 0)"
| "fl_key NaN = (3, 0)"

definition lerp :: "fl \<Rightarrow> fl \<Rightarrow> real \<Rightarrow> fl" where
  "lerp a b t =
     (let diff_b_a = fl_sub b a
      in if t \<ge> 1 / 2 then fl_sub b (fl_mul diff_b_a (Fin (1 - t)))
         else fl_add a (fl_mul diff_b_a (Fin t)))"

definition virtual_index :: "nat \<Rightarrow> real \<Rightarrow> real" where
  "virtual_index n q = real (n - 1) * (q / 100)"

definition previous_index :: "nat \<Rightarrow> real \<Rightarrow> nat" where
  "previous_index n v = (if v \<ge> real (n - 1) then n - 1 else nat \<lfloor>v\<rfloor>)"

definition next_index :: "nat \<Rightarrow> real \<Rightarrow> nat" where
  "next_index n v = (if v \<ge> real (n - 1) then n - 1 else nat \<lfloor>v\<rfloor> + 1)"

definition gamma :: "real \<Rightarrow> real" where
  "gamma v = v - real_of_int \<lfloor>v\<rfloor>"

definition np_percentile :: "fl list \<Rightarrow> real \<Rightarrow> error + fl" where
  "np_percentile a q =
     (if q < 0 \<or> 100 < q then Inl ValueError
      else if a = [] then Inl IndexError
      else if NaN \<in> set a then Inr NaN
      else let arr = sort_key fl_key a;
               v = virtual_index (length a) q
           in Inr (lerp (arr ! previous_index (length a) v)
                        (arr ! next_index (length a) v) (gamma v)))"

definition np_max :: "real list \<Rightarrow> error + fl" where
  "np_max xs = (case xs of [] \<Rightarrow> Inl ValueError | x # rest \<Rightarrow> Inr (Fin (fold max rest x)))"

text \<open>
  Elementwise operations on one-dimensional arrays broadcast: the lengths must agree
  unless one of them is 1 (\<open>ValueError\<close> otherwise).
\<close>

definition broadcast2 :: "('a \<Rightarrow> 'b \<Rightarrow> 'c) \<Rightarrow> 'a list \<Rightarrow> 'b list \<Rightarrow> error + 'c list" where
  "broadcast2 f xs ys =
     (if length xs = length ys then Inr (map2 f xs ys)
      else if length xs = 1 then Inr (map (f (hd xs)) ys)
      else if length ys = 1 then Inr (map (\<lambda>x. f x (hd ys)) xs)
      else Inl ValueError)"

text \<open>
  Python indexing of a sequence of length \<open>n\<close>: a slice \<open>xs[a:b]\<close> clamps its
  bounds, counting negative ones from the end; an item assignment \<open>xs[i] = v\<close> accepts
  \<open>-n \<le> i < n\<close> and raises \<open>IndexError\<close> otherwise.
\<close>

definition py_bound :: "nat \<Rightarrow> int \<Rightarrow> nat" where
  "py_bound n i = (if i < 0 then nat (max (i + int n) 0) else min (nat i) n)"

definition py_slice :: "'a list \<Rightarrow> int \<Rightarrow> int \<Rightarrow> 'a list" where
  "py_slice xs a b =
     (let start = py_bound (length xs) a; stop = py_bound (length xs) b
      in take (stop - start) (drop start xs))"

definition py_setitem :: "'a list \<Rightarrow> int \<Rightarrow> 'a \<Rightarrow> error + 'a list" where
  "py_setitem xs i v =
     (let n = int (length xs)
      in if i < - n \<or> n \<le> i then Inl IndexError
         else Inr (xs[nat (if i < 0 then i + n else i) := v]))"

section \<open>SciPy and the random generator\<close>

text \<open>
  \<open>scipy.stats.norm.ppf\<close>, the inverse of the standard normal distribution
  function: NaN outside \<open>[0, 1]\<close>, \<open>-inf\<close> at 0, \<open>+inf\<close> at 1, 0 at one half. Its
  values elsewhere in the open interval are not computed here: they are the parameter
  \<open>probit\<close>.
\<close>

definition norm_ppf :: "(real \<Rightarrow> real) \<Rightarrow> real \<Rightarrow> fl" where
  "norm_ppf probit p =
     (if p < 0 \<or> 1 < p then NaN
      else if p = 0 then MInf
      else if p = 1 then PInf
      else if p = 1 / 2 then Fin 0
      else Fin (probit p))"

text \<open>
  NumPy's global generator is hidden state shared by all calls. It is modelled as an
  explicit state of type \<open>'g\<close> with the two operations the program uses:
  \<open>np.random.seed\<close> replaces the state, and drawing a standard normal deviate returns
  the deviate and the next state. \<open>np.random.normal(loc, scale, n)\<close> draws \<open>n\<close>
  deviates in order and maps each to \<open>loc + scale * z\<close>.
\<close>

record 'g engine =
  rng_seed :: "nat \<Rightarrow> 'g"
  rng_normal :: "'g \<Rightarrow> real \<times> 'g"

fun normals :: "('g \<Rightarrow> real \<times> 'g) \<Rightarrow> nat \<Rightarrow> 'g \<Rightarrow> real list \<times> 'g" where
  "normals f 0 g = ([], g)"
| "normals f (Suc n) g =
     (let (z, g1) = f g; (zs, g2) = normals f n g1 in (z # zs, g2))"

text \<open>
  The first four deviates of NumPy's legacy generator after \<open>np.random.seed(42)\<close>,
  as an engine whose state counts the deviates drawn since seeding. Later deviates are
  not recorded (they read as 0 here); the evaluations below that use this engine draw
  no more than four deviates.
\<close>

definition seed42_normals :: "nat \<Rightarrow> real" where
  "seed42_normals k =
     (if k = 0 then 0.4967141530112327
      else if k = 1 then - 0.13826430117118466
      else if k = 2 then 0.6476885381006925
      else if k = 3 then 1.5230298564080254
      else 0)"

definition legacy_seed42 :: "nat engine" where
  "legacy_seed42 = \<lparr>rng_seed = (\<lambda>s. 0), rng_normal = (\<lambda>k. (seed42_normals k, Suc k))\<rparr>"

section \<open>risk\_metrics.py\<close>

text \<open>
  \<open>historical_var(returns, confidence, holding_period)\<close>: scale, take the
  \<open>(1 - confidence) * 100\<close> percentile, return its absolute value.
\<close>

definition historical_var :: "real list \<Rightarrow> real \<Rightarrow> real \<Rightarrow> error + fl" where
  "historical_var returns confidence holding_period =
     (let scaled = map (\<lambda>r. fl_mul (Fin r) (np_sqrt holding_period)) returns;
          pct = (1 - confidence) * 100
      in case np_percentile scaled pct of
           Inl e \<Rightarrow> Inl e
         | Inr var \<Rightarrow> Inr (fl_abs var))"

text \<open>
  \<open>var_backtest(returns, var_series, confidence)\<close>. The boolean mask
  \<open>~np.isnan(var_series)\<close> must have the length of \<open>returns\<close> (\<open>IndexError\<close>
  otherwise). \<open>exceptions / total\<close> is a float division: \<open>0 / 0\<close> is NaN. The
  thresholds are compared as the floats the code computes: \<open>rnd\<close> is the rounding of
  float64 (\<open>round64\<close> above), applied to the confidence the caller writes, which
  reaches the function as the nearest float, and to the result of the division, of the
  subtraction and of each multiplication.
\<close>

datatype status = GREEN | YELLOW | RED

record backtest =
  exceptions :: nat
  total_days :: nat
  exception_rate :: fl
  expected_rate :: real
  status :: status

definition var_backtest ::
  "(real \<Rightarrow> real) \<Rightarrow> real list \<Rightarrow> fl list \<Rightarrow> real \<Rightarrow> error + backtest" where
  "var_backtest rnd returns var_series confidence =
     (if length returns \<noteq> length var_series then Inl IndexError
      else let scored = filter (\<lambda>(r, v). v \<noteq> NaN) (zip returns var_series);
               actual = map fst scored;
               predicted = map snd scored;
               exceptions = length (filter (\<lambda>(a, p). fl_lt (Fin a) (fl_neg p)) (zip actual predicted));
               total = length actual;
               exception_rate =
                 (if total = 0 then NaN else Fin (rnd (real exceptions / real total)));
               expected_rate = rnd (1 - rnd confidence);
               status =
                 (if fl_lt exception_rate (Fin (rnd (expected_rate * 1.5))) then GREEN
                  else if fl_lt exception_rate (Fin (rnd (expected_rate * 2))) then YELLOW
                  else RED)
           in Inr \<lparr>exceptions = exceptions, total_days = total,
                   exception_rate = exception_rate, expected_rate = expected_rate,
                   status = status\<rparr>)"


text \<open>
  \<open>parametric_var\<close>: the analytical formula on the fitted mean and deviation; no
  absolute value is taken.
\<close>

definition parametric_var :: "(real \<Rightarrow> real) \<Rightarrow> real list \<Rightarrow> real \<Rightarrow> real \<Rightarrow> fl" where
  "parametric_var probit returns confidence holding_period =
     (let mu = np_mean returns;
          sigma = np_std returns;
          z = norm_ppf probit (1 - confidence)
      in fl_neg (fl_add (fl_mul mu (Fin holding_period))
                        (fl_mul (fl_mul z sigma) (np_sqrt holding_period))))"

text \<open>
  \<open>monte_carlo_var\<close>: reseeds the generator with 42, draws \<open>n_sims\<close> scenarios
  and takes the percentile. \<open>np.random.normal\<close> raises \<open>ValueError\<close> for a negative
  scale or a negative count.
\<close>

definition monte_carlo_var ::
  "'g engine \<Rightarrow> 'g \<Rightarrow> real list \<Rightarrow> int \<Rightarrow> real \<Rightarrow> real \<Rightarrow> (error + fl) \<times> 'g" where
  "monte_carlo_var E g0 returns n_sims confidence holding_period =
     (let mu = np_mean returns;
          sigma = np_std returns;
          g1 = rng_seed E 42;
          loc = fl_mul mu (Fin holding_period);
          scale = fl_mul sigma (np_sqrt holding_period)
      in if fl_lt scale (Fin 0) \<or> n_sims < 0 then (Inl ValueError, g1)
         else let (zs, g2) = normals (rng_normal E) (nat n_sims) g1;
                  sims = map (\<lambda>z. fl_add loc (fl_mul scale (Fin z))) zs;
                  pct = (1 - confidence) * 100
              in case np_percentile sims pct of
                   Inl e \<Rightarrow> (Inl e, g2)
                 | Inr var \<Rightarrow> (Inr (fl_abs var), g2))"

text \<open>
  \<open>expected_shortfall\<close>: the historical VaR (holding period 1), then the absolute
  value of the mean of the returns below \<open>-var\<close>, or the VaR itself when there are
  none.
\<close>

definition expected_shortfall :: "real list \<Rightarrow> real \<Rightarrow> error + fl" where
  "expected_shortfall returns confidence =
     (case historical_var returns confidence 1 of
        Inl e \<Rightarrow> Inl e
      | Inr var \<Rightarrow>
          (let tail = filter (\<lambda>r. fl_lt (Fin r) (fl_neg var)) returns
           in if length tail > 0 then Inr (fl_abs (np_mean tail)) else Inr var))"

text \<open>
  \<open>rolling_var\<close>: the loop \<open>for i in range(window, n)\<close> over an array filled with
  NaN. An exception of \<open>historical_var\<close> or of the assignment ends the call.
\<close>

fun rolling_loop :: "real list \<Rightarrow> int \<Rightarrow> real \<Rightarrow> int list \<Rightarrow> fl list \<Rightarrow> error + fl list" where
  "rolling_loop returns window confidence [] var_series = Inr var_series"
| "rolling_loop returns window confidence (i # is) var_series =
     (case historical_var (py_slice returns (i - window) i) confidence 1 of
        Inl e \<Rightarrow> Inl e
      | Inr v \<Rightarrow>
          (case py_setitem var_series i v of
             Inl e \<Rightarrow> Inl e
           | Inr var_series' \<Rightarrow> rolling_loop returns window confidence is var_series'))"

definition rolling_var :: "real list \<Rightarrow> int \<Rightarrow> real \<Rightarrow> error + fl list" where
  "rolling_var returns window confidence =
     (let n = length returns
      in rolling_loop returns window confidence [window..int n - 1] (replicate n NaN))"

text \<open>
  \<open>portfolio_var\<close>: \<open>weights.T @ cov_matrix @ weights\<close> needs a square matrix of
  the size of \<open>weights\<close> (\<open>ValueError\<close> otherwise); the matrix is a list of rows.
\<close>

definition quadratic_form :: "real list \<Rightarrow> real list list \<Rightarrow> real" where
  "quadratic_form w m =
     sum_list (map (\<lambda>j. sum_list (map2 (\<lambda>wi row. wi * row ! j) w m) * w ! j) [0..<length w])"

definition portfolio_var ::
  "(real \<Rightarrow> real) \<Rightarrow> real list \<Rightarrow> real list list \<Rightarrow> real \<Rightarrow> real \<Rightarrow> error + fl" where
  "portfolio_var probit weights cov_matrix confidence portfolio_value =
     (if length cov_matrix \<noteq> length weights
         \<or> \<not> list_all (\<lambda>row. length row = length weights) cov_matrix
      then Inl ValueError
      else let port_var = np_sqrt (quadratic_form weights cov_matrix);
               z = norm_ppf probit confidence
           in Inr (fl_mul (fl_mul port_var z) (Fin portfolio_value)))"

section \<open>credit\_risk.py\<close>

text \<open>
  One trial of \<open>credit_var\<close>, given its systematic deviate \<open>z\<close> and its idiosyncratic
  deviates \<open>eps\<close>: the asset values, the default flags \<open>asset < thresholds\<close>, and the
  loss \<open>np.sum(defaults * exposures * lgds)\<close>, where a flag counts as 1 or 0.
\<close>

definition asset_values :: "real \<Rightarrow> real \<Rightarrow> real list \<Rightarrow> fl list" where
  "asset_values correlation z eps =
     map (\<lambda>e. fl_add (fl_mul (np_sqrt correlation) (Fin z))
                     (fl_mul (np_sqrt (1 - correlation)) (Fin e))) eps"

definition default_flags ::
  "(real \<Rightarrow> real) \<Rightarrow> real \<Rightarrow> real list \<Rightarrow> real \<Rightarrow> real list \<Rightarrow> error + bool list" where
  "default_flags probit correlation pds z eps =
     (let asset = asset_values correlation z eps;
          thresholds = map (norm_ppf probit) pds
      in broadcast2 fl_lt asset thresholds)"

definition loss_of_defaults :: "bool list \<Rightarrow> real list \<Rightarrow> real list \<Rightarrow> error + real" where
  "loss_of_defaults defaults exposures lgds =
     (case broadcast2 (\<lambda>d x. if d then x else 0) defaults exposures of
        Inl e \<Rightarrow> Inl e
      | Inr de \<Rightarrow>
          (case broadcast2 (*) de lgds of
             Inl e \<Rightarrow> Inl e
           | Inr del \<Rightarrow> Inr (sum_list del)))"

definition trial_loss ::
  "(real \<Rightarrow> real) \<Rightarrow> real list \<Rightarrow> real list \<Rightarrow> real list \<Rightarrow> real \<Rightarrow> real \<Rightarrow> real list
     \<Rightarrow> error + real" where
  "trial_loss probit exposures pds lgds correlation z eps =
     (case default_flags probit correlation pds z eps of
        Inl e \<Rightarrow> Inl e
      | Inr defaults \<Rightarrow> loss_of_defaults defaults exposures lgds)"

text \<open>The loop \<open>for _ in range(n_sims)\<close>, collecting the losses in order.\<close>

fun simulate ::
  "'g engine \<Rightarrow> (real \<Rightarrow> real) \<Rightarrow> real list \<Rightarrow> real list \<Rightarrow> real list \<Rightarrow> real \<Rightarrow> nat \<Rightarrow> 'g
     \<Rightarrow> (error + real list) \<times> 'g" where
  "simulate E probit exposures pds lgds correlation 0 g = (Inr [], g)"
| "simulate E probit exposures pds lgds correlation (Suc n) g =
     (let (z, g1) = rng_normal E g;
          (eps, g2) = normals (rng_normal E) (length exposures) g1
      in case trial_loss probit exposures pds lgds correlation z eps of
           Inl e \<Rightarrow> (Inl e, g2)
         | Inr loss \<Rightarrow>
             (case simulate E probit exposures pds lgds correlation n g2 of
                (Inl e, g3) \<Rightarrow> (Inl e, g3)
              | (Inr losses, g3) \<Rightarrow> (Inr (loss # losses), g3)))"

record credit_result =
  expected_loss_out :: fl
  credit_var_out :: fl
  worst_case_out :: fl

definition credit_var ::
  "'g engine \<Rightarrow> (real \<Rightarrow> real) \<Rightarrow> 'g \<Rightarrow> real list \<Rightarrow> real list \<Rightarrow> real list \<Rightarrow> real \<Rightarrow> int
     \<Rightarrow> real \<Rightarrow> (error + credit_result) \<times> 'g" where
  "credit_var E probit g0 exposures pds lgds correlation n_sims confidence =
     (let g1 = rng_seed E 42
      in case simulate E probit exposures pds lgds correlation (nat n_sims) g1 of
           (Inl e, g2) \<Rightarrow> (Inl e, g2)
         | (Inr losses, g2) \<Rightarrow>
             (let el = np_mean losses
              in case np_percentile (map Fin losses) (confidence * 100) of
                   Inl e \<Rightarrow> (Inl e, g2)
                 | Inr var \<Rightarrow>
                     (case np_max losses of
                        Inl e \<Rightarrow> (Inl e, g2)
                      | Inr worst \<Rightarrow>
                          (Inr \<lparr>expected_loss_out = el, credit_var_out = var,
                                 worst_case_out = worst\<rparr>, g2))))"

section \<open>Percentiles of finite samples\<close>

text \<open>The percentile of a non-empty sample of finite values, as a real.\<close>

definition percentile_fin :: "real list \<Rightarrow> real \<Rightarrow> real" where
  "percentile_fin xs q =
     (let arr = sort xs;
          v = virtual_index (length xs) q;
          a = arr ! previous_index (length xs) v;
          b = arr ! next_index (length xs) v
      in a + (b - a) * gamma v)"

text \<open>The historical VaR of the \<open>w\<close> observations before index \<open>i\<close>, as a real.\<close>

definition window_var :: "real list \<Rightarrow> nat \<Rightarrow> real \<Rightarrow> nat \<Rightarrow> real" where
  "window_var returns w c i =
     \<bar>percentile_fin (map ((!) returns) [i - w..<i]) ((1 - c) * 100)\<bar>"

text \<open>A float that is a non-negative number: not NaN, not negative.\<close>

fun fl_nonneg :: "fl \<Rightarrow> bool" where
  "fl_nonneg NaN = False"
| "fl_nonneg MInf = False"
| "fl_nonneg PInf = True"
| "fl_nonneg (Fin x) = (0 \<le> x)"

section \<open>Lemmas on rounding\<close>

lemma rne_of_int: "rne (real_of_int n) = n"
  by (simp add: rne_def)

lemma rne_bounds: "\<lfloor>x\<rfloor> \<le> rne x" "rne x \<le> \<lfloor>x\<rfloor> + 1"
  by (simp_all add: rne_def Let_def)

lemma rne_mono:
  assumes "x \<le> y"
  shows "rne x \<le> rne y"
proof (cases "\<lfloor>x\<rfloor> = \<lfloor>y\<rfloor>")
  case True
  with assms show ?thesis
    by (auto simp: rne_def Let_def)
next
  case False
  with assms have "\<lfloor>x\<rfloor> < \<lfloor>y\<rfloor>" using floor_mono [OF assms] by linarith
  with rne_bounds(2) [of x] rne_bounds(1) [of y] show ?thesis by linarith
qed

lemma rne_ge: "real_of_int n \<le> x \<Longrightarrow> n \<le> rne x"
  using rne_mono [of "real_of_int n" x] by (simp add: rne_of_int)

lemma rne_le: "x \<le> real_of_int n \<Longrightarrow> rne x \<le> n"
  using rne_mono [of x "real_of_int n"] by (simp add: rne_of_int)

lemma rne_uminus: "rne (- x) = - rne x"
proof (cases "x = real_of_int \<lfloor>x\<rfloor>")
  case True
  then obtain n where "x = real_of_int n" ..
  then show ?thesis by (simp add: rne_of_int flip: of_int_minus)
next
  case False
  then have f: "\<lfloor>- x\<rfloor> = - \<lfloor>x\<rfloor> - 1"
    by (metis ceiling_altdef ceiling_def minus_minus of_int_minus add_diff_cancel)
  show ?thesis
    unfolding rne_def Let_def f
    by (auto simp: algebra_simps)
qed

lemma round64_zero: "round64 0 = 0"
  by (simp add: round64_def)

lemma round64_uminus: "round64 (- x) = - round64 x"
  by (simp add: round64_def Let_def rne_uminus)

lemma binade:
  assumes "0 < x"
  defines "e \<equiv> \<lfloor>log 2 x\<rfloor>"
  shows "2 powr real_of_int e \<le> x" "x < 2 powr (real_of_int e + 1)"
  using floor_log_eq_powr_iff [of x 2 e] assms by simp_all

lemma scaled_range:
  assumes "0 < x"
  defines "u \<equiv> 2 powr (real_of_int \<lfloor>log 2 x\<rfloor> - 52)"
  shows "2 ^ 52 \<le> x / u" "x / u < 2 ^ 53" "0 < u"
proof -
  let ?e = "real_of_int \<lfloor>log 2 x\<rfloor>"
  show u0: "0 < u" by (simp add: u_def)
  have u52: "u * 2 ^ 52 = 2 powr ?e"
    unfolding u_def by (simp add: powr_diff)
  have u53: "u * 2 ^ 53 = 2 powr (?e + 1)"
    unfolding u_def by (simp add: powr_diff powr_add)
  from binade(1) [OF assms(1)] u52 have "u * 2 ^ 52 \<le> x" by simp
  then show "2 ^ 52 \<le> x / u" using u0 by (simp add: pos_le_divide_eq mult.commute)
  from binade(2) [OF assms(1)] u53 have "x < u * 2 ^ 53" by simp
  then show "x / u < 2 ^ 53" using u0 by (simp add: pos_divide_less_eq mult.commute)
qed

lemma round64_pos_bounds:
  assumes "0 < x"
  shows "2 powr real_of_int \<lfloor>log 2 x\<rfloor> \<le> round64 x"
    and "round64 x \<le> 2 powr (real_of_int \<lfloor>log 2 x\<rfloor> + 1)"
proof -
  let ?e = "real_of_int \<lfloor>log 2 x\<rfloor>"
  define u where "u = 2 powr (?e - 52)"
  note r = scaled_range [OF assms, folded u_def]
  have rd: "round64 x = real_of_int (rne (x / u)) * u"
    using assms by (simp add: round64_def Let_def u_def)
  have u52: "2 ^ 52 * u = 2 powr ?e"
    unfolding u_def by (simp add: powr_diff)
  have u53: "2 ^ 53 * u = 2 powr (?e + 1)"
    unfolding u_def by (simp add: powr_diff powr_add)
  have "(2::int) ^ 52 \<le> rne (x / u)" using r(1) by (intro rne_ge) simp
  then have "(2::real) ^ 52 \<le> real_of_int (rne (x / u))"
    by (metis of_int_le_iff of_int_numeral of_int_power)
  then have "2 ^ 52 * u \<le> real_of_int (rne (x / u)) * u"
    using r(3) by (intro mult_right_mono) simp_all
  with u52 rd show "2 powr ?e \<le> round64 x" by simp
  have "rne (x / u) \<le> (2::int) ^ 53" using r(2) by (intro rne_le) simp
  then have "real_of_int (rne (x / u)) \<le> (2::real) ^ 53"
    by (metis of_int_le_iff of_int_numeral of_int_power)
  then have "real_of_int (rne (x / u)) * u \<le> 2 ^ 53 * u"
    using r(3) by (intro mult_right_mono) simp_all
  with u53 rd show "round64 x \<le> 2 powr (?e + 1)" by simp
qed

lemma round64_pos: "0 < x \<Longrightarrow> 0 < round64 x"
  using round64_pos_bounds(1) [of x] powr_gt_zero [of 2 "real_of_int \<lfloor>log 2 x\<rfloor>"]
  by linarith

lemma round64_mono_pos:
  assumes "0 < x" "x \<le> y"
  shows "round64 x \<le> round64 y"
proof (cases "\<lfloor>log 2 x\<rfloor> = \<lfloor>log 2 y\<rfloor>")
  case True
  define u where "u = 2 powr (real_of_int \<lfloor>log 2 x\<rfloor> - 52)"
  have u0: "0 < u" by (simp add: u_def)
  have rx: "round64 x = real_of_int (rne (x / u)) * u"
    using assms by (simp add: round64_def Let_def u_def)
  have ry: "round64 y = real_of_int (rne (y / u)) * u"
    using assms True by (simp add: round64_def Let_def u_def)
  have "x / u \<le> y / u" using assms(2) u0 by (simp add: divide_right_mono)
  then have "rne (x / u) \<le> rne (y / u)" by (rule rne_mono)
  then show ?thesis using u0 by (simp add: rx ry)
next
  case False
  have y: "0 < y" using assms by linarith
  have "log 2 x \<le> log 2 y" using assms y by simp
  then have "\<lfloor>log 2 x\<rfloor> \<le> \<lfloor>log 2 y\<rfloor>" by (rule floor_mono)
  with False have "real_of_int \<lfloor>log 2 x\<rfloor> + 1 \<le> real_of_int \<lfloor>log 2 y\<rfloor>" by linarith
  then have "2 powr (real_of_int \<lfloor>log 2 x\<rfloor> + 1) \<le> 2 powr real_of_int \<lfloor>log 2 y\<rfloor>"
    by simp
  with round64_pos_bounds(2) [OF assms(1)] round64_pos_bounds(1) [OF y]
  show ?thesis by linarith
qed

lemma round64_mono:
  assumes "x \<le> y"
  shows "round64 x \<le> round64 y"
proof -
  consider "0 < x" | "x = 0" | "x < 0" "y < 0" | "x < 0" "0 \<le> y" by linarith
  then show ?thesis
  proof cases
    case 1
    then show ?thesis using assms by (rule round64_mono_pos)
  next
    case 2
    show ?thesis
    proof (cases "y = 0")
      case True
      with 2 show ?thesis by simp
    next
      case False
      with 2 assms have "0 < y" by simp
      from round64_pos [OF this] 2 show ?thesis by (simp add: round64_zero)
    qed
  next
    case 3
    then have "0 < - y" "- y \<le> - x" using assms by simp_all
    from round64_mono_pos [OF this] show ?thesis by (simp add: round64_uminus)
  next
    case 4
    then have "0 < - x" by simp
    from round64_pos [OF this] have nx: "round64 x < 0" by (simp add: round64_uminus)
    have "0 \<le> round64 y"
    proof (cases "y = 0")
      case True
      then show ?thesis by (simp add: round64_zero)
    next
      case False
      with 4 have "0 < y" by simp
      from round64_pos [OF this] show ?thesis by simp
    qed
    with nx show ?thesis by linarith
  qed
qed

lemma round64_scaled:
  assumes "2 ^ 52 \<le> \<bar>x\<bar> * 2 ^ n" "\<bar>x\<bar> * 2 ^ n < 2 ^ 53"
  shows "round64 x = real_of_int (rne (x * 2 ^ n)) / 2 ^ n"
proof -
  have x0: "x \<noteq> 0" using assms(1) by auto
  then have ax: "0 < \<bar>x\<bar>" by simp
  have p: "2 powr real_of_int (52 - int n) = 2 ^ 52 / 2 ^ n"
    by (simp add: powr_diff powr_realpow)
  have p1: "2 powr (real_of_int (52 - int n) + 1) = 2 ^ 53 / 2 ^ n"
    by (simp add: powr_diff powr_add powr_realpow)
  have a1: "(2::real) ^ 52 / 2 ^ n \<le> \<bar>x\<bar>"
    using assms(1) by (simp add: pos_divide_le_eq)
  have a2: "\<bar>x\<bar> < (2::real) ^ 53 / 2 ^ n"
    using assms(2) by (simp add: pos_less_divide_eq)
  have "2 powr real_of_int (52 - int n) \<le> \<bar>x\<bar>"
    by (subst p) (rule a1)
  moreover have "\<bar>x\<bar> < 2 powr (real_of_int (52 - int n) + 1)"
    by (subst p1) (rule a2)
  ultimately have e: "\<lfloor>log 2 \<bar>x\<bar>\<rfloor> = 52 - int n"
    using floor_log_eq_powr_iff [of "\<bar>x\<bar>" 2 "52 - int n"] ax by simp
  have u: "2 powr (real_of_int (52 - int n) - 52) = 1 / 2 ^ n"
    by (simp add: powr_minus powr_realpow divide_inverse)
  have "round64 x = real_of_int (rne (x / (1 / 2 ^ n))) * (1 / 2 ^ n)"
    unfolding round64_def Let_def e u using x0 by simp
  then show ?thesis by simp
qed

text \<open>Roundings of the values the evaluations below meet.\<close>

lemma r_half: "round64 (1/2) = 1/2"
  by (simp add: round64_scaled [of _ 53] rne_def)

lemma r_one: "round64 1 = 1"
  by (simp add: round64_scaled [of _ 52] rne_def)

lemma r_34: "round64 (3/4) = 3/4"
  by (simp add: round64_scaled [of _ 53] rne_def)

lemma r_35: "round64 (3/5) = 5404319552844595 / 9007199254740992"
  by (simp add: round64_scaled [of _ 53] rne_def)

lemma r_45: "round64 (4/5) = 3602879701896397 / 4503599627370496"
  by (simp add: round64_scaled [of _ 53] rne_def)

lemma r_04: "round64 (3602879701896397 / 9007199254740992) = 3602879701896397 / 9007199254740992"
  by (simp add: round64_scaled [of _ 54] rne_def)

lemma r_08: "round64 (3602879701896397 / 4503599627370496) = 3602879701896397 / 4503599627370496"
  by (simp add: round64_scaled [of _ 53] rne_def)

lemma r_06: "round64 (10808639105689191 / 18014398509481984) = 1351079888211149 / 2251799813685248"
  by (simp add: round64_scaled [of _ 53] rne_def)


lemma r_095: "round64 (19/20) = 4278419646001971 / 4503599627370496"
  by (simp add: round64_scaled [of _ 53] rne_def)

lemma r_005: "round64 (225179981368525 / 4503599627370496) = 225179981368525 / 4503599627370496"
  by (simp add: round64_scaled [of _ 57] rne_def)

lemma r_0075: "round64 (675539944105575 / 9007199254740992) = 675539944105575 / 9007199254740992"
  by (simp add: round64_scaled [of _ 56] rne_def)

lemma r_010: "round64 (225179981368525 / 2251799813685248) = 225179981368525 / 2251799813685248"
  by (simp add: round64_scaled [of _ 56] rne_def)

lemma r_3_40: "round64 (3/40) = 5404319552844595 / 72057594037927936"
  by (simp add: round64_scaled [of _ 56] rne_def)

lemma r_1_10: "round64 (1/10) = 3602879701896397 / 36028797018963968"
  by (simp add: round64_scaled [of _ 56] rne_def)

lemmas round64_values = r_half r_one r_34 r_35 r_45 r_04 r_08 r_06

section \<open>Lemmas on percentiles\<close>

lemma insort_key_Fin:
  "insort_key fl_key (Fin x) (map Fin ys) = map Fin (insort x ys)"
  by (induction ys) simp_all

lemma sort_key_Fin: "sort_key fl_key (map Fin xs) = map Fin (sort xs)"
  by (induction xs) (simp_all add: insort_key_Fin)

lemma lerp_Fin: "lerp (Fin a) (Fin b) t = Fin (a + (b - a) * t)"
  by (simp add: lerp_def fl_sub_def Let_def algebra_simps)

lemma virtual_index_nonneg: "0 \<le> q \<Longrightarrow> 0 \<le> virtual_index n q"
  by (simp add: virtual_index_def)

lemma gamma_range: "0 \<le> gamma v" "gamma v \<le> 1"
  by (simp_all add: gamma_def) linarith

lemma index_bounds:
  assumes n: "0 < n" and v0: "0 \<le> v"
  shows "previous_index n v < n" and "next_index n v < n"
proof -
  { assume lt: "v < real (n - 1)"
    have "real_of_int \<lfloor>v\<rfloor> \<le> v" by simp
    with lt have "real_of_int \<lfloor>v\<rfloor> < real (n - 1)" by linarith
    then have "\<lfloor>v\<rfloor> < int (n - 1)" by linarith
    then have "nat \<lfloor>v\<rfloor> < n - 1" using v0 by linarith }
  then show "previous_index n v < n" and "next_index n v < n"
    using n by (auto simp: not_le previous_index_def next_index_def)
qed

lemma np_percentile_Fin:
  assumes "xs \<noteq> []" "0 \<le> q" "q \<le> 100"
  shows "np_percentile (map Fin xs) q = Inr (Fin (percentile_fin xs q))"
proof -
  have nonan: "NaN \<notin> set (map Fin xs)" by auto
  have n: "0 < length xs" using assms by simp
  note b = index_bounds [OF n virtual_index_nonneg [OF assms(2)]]
  show ?thesis
    using assms nonan b
    by (simp add: np_percentile_def percentile_fin_def Let_def sort_key_Fin lerp_Fin
        del: set_map)
qed

lemma percentile_fin_bounds:
  assumes "xs \<noteq> []" "0 \<le> q"
    and lb: "\<forall>x\<in>set xs. lb \<le> x" and ub: "\<forall>x\<in>set xs. x \<le> ub"
  shows "lb \<le> percentile_fin xs q \<and> percentile_fin xs q \<le> ub"
proof -
  define v where "v = virtual_index (length xs) q"
  define lo where "lo = previous_index (length xs) v"
  define hi where "hi = next_index (length xs) v"
  define t where "t = gamma v"
  have n: "0 < length xs" using assms by simp
  have lo: "lo < length (sort xs)" and hi: "hi < length (sort xs)"
    using index_bounds [OF n virtual_index_nonneg [OF assms(2)]]
    by (simp_all add: lo_def hi_def v_def)
  have "sort xs ! lo \<in> set xs" "sort xs ! hi \<in> set xs"
    using nth_mem [OF lo] nth_mem [OF hi] by simp_all
  then have a: "lb \<le> sort xs ! lo" "sort xs ! lo \<le> ub"
    and b: "lb \<le> sort xs ! hi" "sort xs ! hi \<le> ub"
    using lb ub by auto
  have t: "0 \<le> t" "t \<le> 1" using gamma_range by (simp_all add: t_def)
  have eq: "percentile_fin xs q = (1 - t) * sort xs ! lo + t * sort xs ! hi"
    by (simp add: percentile_fin_def Let_def v_def lo_def hi_def t_def algebra_simps)
  have "lb = (1 - t) * lb + t * lb" by (simp add: algebra_simps)
  also have "\<dots> \<le> (1 - t) * sort xs ! lo + t * sort xs ! hi"
    using t a b by (intro add_mono mult_left_mono) simp_all
  finally have 1: "lb \<le> percentile_fin xs q" by (simp add: eq)
  have "(1 - t) * sort xs ! lo + t * sort xs ! hi \<le> (1 - t) * ub + t * ub"
    using t a b by (intro add_mono mult_left_mono) simp_all
  also have "\<dots> = ub" by (simp add: algebra_simps)
  finally have 2: "percentile_fin xs q \<le> ub" by (simp add: eq)
  from 1 2 show ?thesis ..
qed

section \<open>Lemmas on the historical estimator and the tail\<close>

lemmas percentile_eval = np_percentile_def virtual_index_def previous_index_def
  next_index_def gamma_def lerp_def fl_sub_def np_sqrt_def Let_def

lemma np_sqrt_nonneg: "0 \<le> h \<Longrightarrow> np_sqrt h = Fin (sqrt h)"
  by (simp add: np_sqrt_def)

lemma historical_var_fin:
  assumes "returns \<noteq> []" "0 \<le> c" "c \<le> 1" "0 \<le> h"
  shows "historical_var returns c h =
           Inr (Fin \<bar>percentile_fin (map (\<lambda>r. r * sqrt h) returns) ((1 - c) * 100)\<bar>)"
proof -
  have sc: "map (\<lambda>r. fl_mul (Fin r) (np_sqrt h)) returns = map Fin (map (\<lambda>r. r * sqrt h) returns)"
    using assms(4) by (simp add: np_sqrt_nonneg)
  have q: "0 \<le> (1 - c) * 100" "(1 - c) * 100 \<le> 100" using assms by simp_all
  have ne: "map (\<lambda>r. r * sqrt h) returns \<noteq> []" using assms(1) by simp
  show ?thesis
    unfolding historical_var_def Let_def sc
    by (simp only: np_percentile_Fin [OF ne q] sum.case fl_abs.simps)
qed

lemma expected_shortfall_fin:
  assumes "returns \<noteq> []" "0 \<le> c" "c \<le> 1"
  defines "v \<equiv> \<bar>percentile_fin returns ((1 - c) * 100)\<bar>"
  defines "tail \<equiv> filter (\<lambda>r. r < - v) returns"
  shows "historical_var returns c 1 = Inr (Fin v)"
    and "expected_shortfall returns c =
           Inr (Fin (if tail = [] then v else \<bar>sum_list tail / real (length tail)\<bar>))"
proof -
  show hv: "historical_var returns c 1 = Inr (Fin v)"
    using historical_var_fin [OF assms(1-3), of 1] by (simp add: v_def)
  show "expected_shortfall returns c =
           Inr (Fin (if tail = [] then v else \<bar>sum_list tail / real (length tail)\<bar>))"
    unfolding expected_shortfall_def hv
    by (simp add: Let_def tail_def np_mean_def)
qed

lemma sum_list_abs_neg:
  fixes xs :: "real list"
  assumes "\<forall>x\<in>set xs. x < 0"
  shows "\<bar>sum_list xs\<bar> = sum_list (map abs xs)"
proof -
  have "sum_list (map abs xs) = - sum_list xs"
    using assms by (induction xs) auto
  moreover have "sum_list xs \<le> 0"
    using assms by (induction xs) auto
  ultimately show ?thesis by simp
qed

section \<open>Lemmas on the rolling loop\<close>

lemma take_drop_nth:
  assumes "m + w \<le> length xs"
  shows "take w (drop m xs) = map ((!) xs) [m..<m + w]"
  using assms by (intro nth_equalityI) simp_all

lemma py_slice_window:
  assumes "0 < W" "W \<le> i" "i < int (length xs)"
  shows "py_slice xs (i - W) i = map ((!) xs) [nat i - nat W..<nat i]"
proof -
  have b1: "py_bound (length xs) (i - W) = nat i - nat W"
    using assms by (simp add: py_bound_def)
  have b2: "py_bound (length xs) i = nat i"
    using assms by (simp add: py_bound_def)
  have "take (nat i - (nat i - nat W)) (drop (nat i - nat W) xs)
          = map ((!) xs) [nat i - nat W..<(nat i - nat W) + (nat i - (nat i - nat W))]"
    using assms by (intro take_drop_nth) linarith
  moreover have "(nat i - nat W) + (nat i - (nat i - nat W)) = nat i"
    using assms by linarith
  ultimately show ?thesis
    by (simp add: py_slice_def Let_def b1 b2)
qed

lemma py_setitem_nonneg:
  assumes "0 \<le> i" "i < int (length xs)"
  shows "py_setitem xs i v = Inr (xs[nat i := v])"
  using assms by (simp add: py_setitem_def Let_def)

lemma historical_var_window:
  assumes "0 < w" "w \<le> i" "0 \<le> c" "c \<le> 1"
  shows "historical_var (map ((!) returns) [i - w..<i]) c 1 = Inr (Fin (window_var returns w c i))"
proof -
  have ne: "map ((!) returns) [i - w..<i] \<noteq> []" using assms by simp
  show ?thesis
    using historical_var_fin [OF ne assms(3,4), of 1] by (simp add: window_var_def)
qed

lemma rolling_loop_ok:
  assumes "0 < W" "0 \<le> c" "c \<le> 1"
    and "\<forall>i\<in>set is. W \<le> i \<and> i < int (length returns)"
    and "length vs = length returns"
  shows "\<exists>vs'. rolling_loop returns W c is vs = Inr vs' \<and> length vs' = length returns \<and>
           (\<forall>j<length returns. vs' ! j =
              (if int j \<in> set is then Fin (window_var returns (nat W) c j) else vs ! j))"
  using assms(4,5)
proof (induction "is" arbitrary: vs)
  case Nil
  then show ?case by simp
next
  case (Cons i rest)
  from Cons.prems have i: "W \<le> i" "i < int (length returns)" by simp_all
  with assms(1) have i0: "0 \<le> i" by linarith
  have w: "0 < nat W" "nat W \<le> nat i" using assms(1) i by linarith+
  have hv: "historical_var (py_slice returns (i - W) i) c 1
              = Inr (Fin (window_var returns (nat W) c (nat i)))"
    using py_slice_window [OF assms(1) i] historical_var_window [OF w assms(2,3)]
    by simp
  have set: "py_setitem vs i (Fin (window_var returns (nat W) c (nat i)))
               = Inr (vs[nat i := Fin (window_var returns (nat W) c (nat i))])"
    using i Cons.prems(2) by (intro py_setitem_nonneg [OF i0]) simp
  let ?vs = "vs[nat i := Fin (window_var returns (nat W) c (nat i))]"
  from Cons.prems have "\<forall>i\<in>set rest. W \<le> i \<and> i < int (length returns)"
    and "length ?vs = length returns" by simp_all
  from Cons.IH [OF this] obtain vs' where
    r: "rolling_loop returns W c rest ?vs = Inr vs'" and l: "length vs' = length returns"
    and v: "\<forall>j<length returns. vs' ! j =
              (if int j \<in> set rest then Fin (window_var returns (nat W) c j) else ?vs ! j)"
    by blast
  have "rolling_loop returns W c (i # rest) vs = Inr vs'"
    by (simp add: hv set r)
  moreover have "\<forall>j<length returns. vs' ! j =
              (if int j \<in> set (i # rest) then Fin (window_var returns (nat W) c j) else vs ! j)"
  proof (intro allI impI)
    fix j assume j: "j < length returns"
    show "vs' ! j = (if int j \<in> set (i # rest) then Fin (window_var returns (nat W) c j) else vs ! j)"
    proof (cases "int j = i")
      case True
      then have "nat i = j" by simp
      with v j Cons.prems(2) True show ?thesis by auto
    next
      case False
      then have "nat i \<noteq> j" using i0 by linarith
      with v j False show ?thesis by simp
    qed
  qed
  ultimately show ?case using l by blast
qed

section \<open>Lemmas on signs and degenerate inputs\<close>

lemma fl_abs_nonneg: "fl_abs x = NaN \<or> fl_nonneg (fl_abs x)"
  by (cases x) simp_all

lemma fl_mul_nonneg:
  assumes "fl_nonneg a" "fl_nonneg b"
  shows "fl_mul a b = NaN \<or> fl_nonneg (fl_mul a b)"
  using assms by (cases a; cases b) (simp_all add: Let_def)

lemma fl_mul_NaN_left: "fl_mul NaN b = NaN"
  by simp

lemma np_sqrt_nonneg_or_nan: "np_sqrt x = NaN \<or> fl_nonneg (np_sqrt x)"
  by (simp add: np_sqrt_def)

lemma historical_var_abs:
  "historical_var returns c h = Inr x \<Longrightarrow> x = NaN \<or> fl_nonneg x"
  using fl_abs_nonneg by (auto simp: historical_var_def Let_def split: sum.splits)

lemma monte_carlo_var_abs:
  "fst (monte_carlo_var E g returns n c h) = Inr x \<Longrightarrow> x = NaN \<or> fl_nonneg x"
  using fl_abs_nonneg
  by (auto simp: monte_carlo_var_def Let_def split: sum.splits if_splits prod.splits)

lemma portfolio_var_sign:
  assumes "portfolio_var probit w cov c pv = Inr x"
    and "fl_nonneg (norm_ppf probit c)" and "0 \<le> pv"
  shows "x = NaN \<or> fl_nonneg x"
proof -
  define s where "s = np_sqrt (quadratic_form w cov)"
  define z where "z = norm_ppf probit c"
  from assms(1) have x: "x = fl_mul (fl_mul s z) (Fin pv)"
    by (auto simp: portfolio_var_def Let_def s_def z_def split: if_splits)
  have pv: "fl_nonneg (Fin pv)" using assms(3) by simp
  from np_sqrt_nonneg_or_nan [of "quadratic_form w cov"]
  show ?thesis
  proof
    assume "np_sqrt (quadratic_form w cov) = NaN"
    then show ?thesis by (simp add: x s_def)
  next
    assume "fl_nonneg (np_sqrt (quadratic_form w cov))"
    then have "fl_mul s z = NaN \<or> fl_nonneg (fl_mul s z)"
      using assms(2) by (intro fl_mul_nonneg) (simp_all add: s_def z_def)
    then show ?thesis
    proof
      assume "fl_mul s z = NaN" then show ?thesis by (simp add: x)
    next
      assume "fl_nonneg (fl_mul s z)"
      from fl_mul_nonneg [OF this pv] show ?thesis by (simp add: x)
    qed
  qed
qed

lemma length_normals: "length (fst (normals f n g)) = n"
proof (induction n arbitrary: g)
  case 0
  show ?case by simp
next
  case (Suc n)
  obtain z g1 where f: "f g = (z, g1)" by (cases "f g")
  obtain zs g2 where r: "normals f n g1 = (zs, g2)" by (cases "normals f n g1")
  from Suc [of g1] r have "length zs = n" by simp
  with f r show ?case by simp
qed

lemma percentile_fin_const:
  assumes "xs \<noteq> []" "0 \<le> q" "\<forall>x\<in>set xs. x = a"
  shows "percentile_fin xs q = a"
  using percentile_fin_bounds [OF assms(1,2), of a a] assms(3) by auto

lemma historical_var_zero_period:
  assumes "returns \<noteq> []" "0 \<le> c" "c \<le> 1"
  shows "historical_var returns c 0 = Inr (Fin 0)"
proof -
  have ne: "map (\<lambda>r. r * sqrt 0) returns \<noteq> []" using assms(1) by simp
  have "percentile_fin (map (\<lambda>r. r * sqrt 0) returns) ((1 - c) * 100) = 0"
    using assms(2,3) by (intro percentile_fin_const [OF ne]) auto
  with historical_var_fin [OF assms, of 0] show ?thesis by simp
qed

lemma historical_var_single:
  assumes "0 \<le> c" "c \<le> 1" "0 \<le> h"
  shows "historical_var [r] c h = Inr (Fin \<bar>r * sqrt h\<bar>)"
proof -
  have "percentile_fin (map (\<lambda>r. r * sqrt h) [r]) ((1 - c) * 100) = r * sqrt h"
    using assms by (intro percentile_fin_const) auto
  with historical_var_fin [of "[r]" c h] assms show ?thesis by simp
qed

lemma historical_var_negative_period:
  assumes "returns \<noteq> []" "0 \<le> c" "c \<le> 1" "h < 0"
  shows "historical_var returns c h = Inr NaN"
proof -
  have sc: "map (\<lambda>r. fl_mul (Fin r) (np_sqrt h)) returns = map (\<lambda>r. NaN) returns"
    using assms(4) by (simp add: np_sqrt_def)
  have "NaN \<in> set (map (\<lambda>r. NaN) returns)" using assms(1) by (cases returns) auto
  then have p: "np_percentile (map (\<lambda>r. NaN) returns) ((1 - c) * 100) = Inr NaN"
    using assms by (simp add: np_percentile_def del: set_map)
  show ?thesis
    by (simp only: historical_var_def Let_def sc p sum.case fl_abs.simps)
qed

lemma historical_var_empty: "\<exists>e. historical_var [] c h = Inl e"
  by (simp add: historical_var_def np_percentile_def Let_def)

lemma monte_carlo_var_zero_period:
  assumes "returns \<noteq> []" "0 < n_sims" "0 \<le> c" "c \<le> 1"
  shows "fst (monte_carlo_var E g returns n_sims c 0) = Inr (Fin 0)"
proof -
  define zs where "zs = fst (normals (rng_normal E) (nat n_sims) (rng_seed E 42))"
  have len: "length zs = nat n_sims" by (simp add: zs_def length_normals)
  then have ne: "map (\<lambda>z. 0::real) zs \<noteq> []" using assms(2) by auto
  obtain m s where ms: "np_mean returns = Fin m" "np_std returns = Fin s"
    using assms(1) by (simp add: np_mean_def np_std_def Let_def)
  obtain g2 where n: "normals (rng_normal E) (nat n_sims) (rng_seed E 42) = (zs, g2)"
    by (cases "normals (rng_normal E) (nat n_sims) (rng_seed E 42)") (simp add: zs_def)
  have sims: "map (\<lambda>z. fl_add (fl_mul (Fin m) (Fin 0)) (fl_mul (fl_mul (Fin s) (np_sqrt 0)) (Fin z))) zs
                = map Fin (map (\<lambda>z. 0) zs)"
    by (simp add: np_sqrt_def)
  have q: "0 \<le> (1 - c) * 100" "(1 - c) * 100 \<le> 100" using assms by simp_all
  have "percentile_fin (map (\<lambda>z. 0) zs) ((1 - c) * 100) = 0"
    using q by (intro percentile_fin_const [OF ne]) auto
  with np_percentile_Fin [OF ne q]
  have p: "np_percentile (map Fin (map (\<lambda>z. 0) zs)) ((1 - c) * 100) = Inr (Fin 0)" by simp
  have guard: "(fl_lt (fl_mul (Fin s) (np_sqrt 0)) (Fin 0) \<or> n_sims < 0) = False"
    using assms(2) by (simp add: np_sqrt_def)
  show ?thesis
    by (simp only: monte_carlo_var_def Let_def ms guard if_False n prod.case sims p sum.case
        fst_conv fl_abs.simps abs_zero)
qed

lemma portfolio_var_no_check:
  assumes "length cov = length w" "list_all (\<lambda>row. length row = length w) cov"
  shows "portfolio_var probit w cov c pv =
           Inr (fl_mul (fl_mul (np_sqrt (quadratic_form w cov)) (norm_ppf probit c)) (Fin pv))"
  using assms by (simp add: portfolio_var_def Let_def)

section \<open>Lemmas on the default simulation\<close>

lemmas credit_eval = credit_var_def legacy_seed42_def seed42_normals_def trial_loss_def
  loss_of_defaults_def   default_flags_def asset_values_def broadcast2_def norm_ppf_def np_mean_def np_max_def

lemma broadcast2_same: "length xs = length ys \<Longrightarrow> broadcast2 f xs ys = Inr (map2 f xs ys)"
  by (simp add: broadcast2_def)

lemma default_flags_aligned:
  assumes "length eps = length pds"
  shows "default_flags probit rho pds z eps =
           Inr (map2 fl_lt (asset_values rho z eps) (map (norm_ppf probit) pds))"
  using assms by (simp add: default_flags_def Let_def asset_values_def broadcast2_same)

lemma trial_loss_aligned:
  assumes "length pds = length exposures" "length lgds = length exposures"
    "length eps = length exposures"
  shows "\<exists>l. trial_loss probit exposures pds lgds rho z eps = Inr l"
  using assms
  by (simp add: trial_loss_def loss_of_defaults_def default_flags_aligned asset_values_def
      broadcast2_same)

lemma simulate_aligned:
  assumes "length pds = length exposures" "length lgds = length exposures"
  shows "\<exists>losses g'. simulate E probit exposures pds lgds rho n g = (Inr losses, g') \<and>
           length losses = n"
proof (induction n arbitrary: g)
  case 0
  show ?case by simp
next
  case (Suc n)
  obtain z g1 where d1: "rng_normal E g = (z, g1)" by (cases "rng_normal E g")
  obtain eps g2 where d2: "normals (rng_normal E) (length exposures) g1 = (eps, g2)"
    by (cases "normals (rng_normal E) (length exposures) g1")
  have "length eps = length exposures"
    using length_normals [of "rng_normal E" "length exposures" g1] d2 by simp
  from trial_loss_aligned [OF assms this] obtain l
    where l: "trial_loss probit exposures pds lgds rho z eps = Inr l" by blast
  from Suc [of g2] obtain losses g3
    where r: "simulate E probit exposures pds lgds rho n g2 = (Inr losses, g3)"
      and len: "length losses = n" by blast
  show ?case by (simp add: d1 d2 l r len)
qed

lemma fold_max_ge:
  fixes a :: real
  assumes "x \<in> set (a # xs)"
  shows "x \<le> fold max xs a"
proof -
  have "fold max xs a = Max (set (a # xs))" by (simp only: Max.set_eq_fold)
  with assms show ?thesis by simp
qed

lemma credit_var_of_losses:
  assumes s: "simulate E probit exposures pds lgds rho (nat n_sims) (rng_seed E 42) = (Inr losses, g')"
    and ne: "losses \<noteq> []" and c: "0 \<le> c" "c \<le> 1"
  shows "\<exists>var worst.
           credit_var E probit g exposures pds lgds rho n_sims c =
             (Inr \<lparr>expected_loss_out = np_mean losses, credit_var_out = Fin var,
                   worst_case_out = Fin worst\<rparr>, g') \<and>
           np_percentile (map Fin losses) (c * 100) = Inr (Fin var) \<and>
           np_max losses = Inr (Fin worst) \<and> var \<le> worst"
proof -
  from ne obtain a rest where ar: "losses = a # rest" by (cases losses) auto
  define worst where "worst = fold max rest a"
  have ub: "\<forall>x\<in>set losses. x \<le> worst"
    using fold_max_ge [of _ a rest] by (simp only: ar worst_def) blast
  have q: "0 \<le> c * 100" "c * 100 \<le> 100" using c by simp_all
  have p: "np_percentile (map Fin losses) (c * 100) = Inr (Fin (percentile_fin losses (c * 100)))"
    by (rule np_percentile_Fin [OF ne q])
  have lb: "\<forall>x\<in>set losses. Min (set losses) \<le> x" by simp
  from percentile_fin_bounds [OF ne q(1) lb ub]
  have v: "percentile_fin losses (c * 100) \<le> worst" by simp
  have mx: "np_max losses = Inr (Fin worst)"
    by (simp add: np_max_def ar worst_def)
  have "credit_var E probit g exposures pds lgds rho n_sims c =
          (Inr \<lparr>expected_loss_out = np_mean losses,
                credit_var_out = Fin (percentile_fin losses (c * 100)),
                worst_case_out = Fin worst\<rparr>, g')"
    by (simp only: credit_var_def Let_def s prod.case p mx sum.case)
  with p mx v show ?thesis by blast
qed

lemma credit_var_aligned:
  assumes "length pds = length exposures" "length lgds = length exposures"
    and "0 < n_sims" "0 \<le> c" "c \<le> 1"
  shows "\<exists>el var worst.
           fst (credit_var E probit g exposures pds lgds rho n_sims c) =
             Inr \<lparr>expected_loss_out = Fin el, credit_var_out = Fin var, worst_case_out = Fin worst\<rparr>
           \<and> var \<le> worst"
proof -
  from simulate_aligned [OF assms(1,2), of E probit rho "nat n_sims" "rng_seed E 42"]
  obtain losses g'
    where s: "simulate E probit exposures pds lgds rho (nat n_sims) (rng_seed E 42) = (Inr losses, g')"
      and len: "length losses = nat n_sims" by blast
  from len assms(3) have ne: "losses \<noteq> []" by auto
  from credit_var_of_losses [OF s ne assms(4,5), of g] obtain var worst where
    r: "credit_var E probit g exposures pds lgds rho n_sims c =
             (Inr \<lparr>expected_loss_out = np_mean losses, credit_var_out = Fin var,
                   worst_case_out = Fin worst\<rparr>, g')"
    and o: "var \<le> worst" by blast
  have m: "np_mean losses = Fin (sum_list losses / real (length losses))"
    using ne by (simp add: np_mean_def)
  from r o m show ?thesis by auto
qed

lemma credit_var_no_trials:
  assumes "n_sims \<le> 0"
  shows "\<exists>e. fst (credit_var E probit g exposures pds lgds rho n_sims c) = Inl e"
proof -
  from assms have "nat n_sims = 0" by simp
  then show ?thesis
    by (simp add: credit_var_def Let_def np_percentile_def)
qed

lemma asset_values_finite:
  assumes "0 \<le> rho" "rho \<le> 1" "i < length eps"
  shows "\<exists>a. asset_values rho z eps ! i = Fin a"
  using assms by (simp add: asset_values_def np_sqrt_def)

lemma fl_lt_MInf: "\<not> fl_lt a MInf"
  by (cases a) simp_all

lemma default_flags_boundary:
  assumes "length eps = length pds"
  shows "\<exists>defaults. default_flags probit rho pds z eps = Inr defaults \<and>
           length defaults = length pds \<and>
           (\<forall>i<length pds.
              (pds ! i = 0 \<longrightarrow> \<not> defaults ! i) \<and>
              (pds ! i = 1 \<and> 0 \<le> rho \<and> rho \<le> 1 \<longrightarrow> defaults ! i))"
proof -
  define defaults where
    "defaults = map2 fl_lt (asset_values rho z eps) (map (norm_ppf probit) pds)"
  have la: "length (asset_values rho z eps) = length pds"
    using assms by (simp add: asset_values_def)
  have d: "default_flags probit rho pds z eps = Inr defaults"
    using assms by (simp add: default_flags_aligned defaults_def)
  have len: "length defaults = length pds" using la by (simp add: defaults_def)
  have nth: "defaults ! i = fl_lt (asset_values rho z eps ! i) (norm_ppf probit (pds ! i))"
    if "i < length pds" for i
    using that la by (simp add: defaults_def)
  have zero: "\<not> defaults ! i" if "i < length pds" "pds ! i = 0" for i
    using that by (simp add: nth norm_ppf_def fl_lt_MInf)
  have one: "defaults ! i" if "i < length pds" "pds ! i = 1" "0 \<le> rho" "rho \<le> 1" for i
  proof -
    from asset_values_finite [OF that(3,4), of i eps z] that(1) assms
    obtain a where "asset_values rho z eps ! i = Fin a" by auto
    with that(1,2) show ?thesis by (simp add: nth norm_ppf_def)
  qed
  from d len zero one show ?thesis by blast
qed

lemma trial_loss_boundary:
  assumes "length pds = length exposures" "length lgds = length exposures"
    "length eps = length exposures"
  shows "\<exists>loss defaults. trial_loss probit exposures pds lgds rho z eps = Inr loss \<and>
           length defaults = length pds \<and>
           loss_of_defaults defaults exposures lgds = Inr loss \<and>
           (\<forall>i<length pds.
              (pds ! i = 0 \<longrightarrow> \<not> defaults ! i) \<and>
              (pds ! i = 1 \<and> 0 \<le> rho \<and> rho \<le> 1 \<longrightarrow> defaults ! i))"
proof -
  have "length eps = length pds" using assms by simp
  from default_flags_boundary [OF this, of probit rho z] obtain defaults where
    d: "default_flags probit rho pds z eps = Inr defaults" and len: "length defaults = length pds"
    and b: "\<forall>i<length pds.
              (pds ! i = 0 \<longrightarrow> \<not> defaults ! i) \<and>
              (pds ! i = 1 \<and> 0 \<le> rho \<and> rho \<le> 1 \<longrightarrow> defaults ! i)"
    by blast
  from trial_loss_aligned [OF assms, of probit rho z] obtain loss
    where l: "trial_loss probit exposures pds lgds rho z eps = Inr loss" by blast
  with d have "loss_of_defaults defaults exposures lgds = Inr loss"
    by (simp add: trial_loss_def)
  with l len b show ?thesis by blast
qed

lemma simulate_boundary:
  assumes "length pds = length exposures" "length lgds = length exposures"
  shows "\<exists>losses g'. simulate E probit exposures pds lgds rho n g = (Inr losses, g') \<and>
           length losses = n \<and>
           (\<forall>loss\<in>set losses. \<exists>defaults.
              length defaults = length pds \<and>
              loss_of_defaults defaults exposures lgds = Inr loss \<and>
              (\<forall>i<length pds.
                 (pds ! i = 0 \<longrightarrow> \<not> defaults ! i) \<and>
                 (pds ! i = 1 \<and> 0 \<le> rho \<and> rho \<le> 1 \<longrightarrow> defaults ! i)))"
proof (induction n arbitrary: g)
  case 0
  show ?case by simp
next
  case (Suc n)
  obtain z g1 where d1: "rng_normal E g = (z, g1)" by (cases "rng_normal E g")
  obtain eps g2 where d2: "normals (rng_normal E) (length exposures) g1 = (eps, g2)"
    by (cases "normals (rng_normal E) (length exposures) g1")
  have le: "length eps = length exposures"
    using length_normals [of "rng_normal E" "length exposures" g1] d2 by simp
  from trial_loss_boundary [OF assms le, of probit rho z] obtain loss defaults where
    l: "trial_loss probit exposures pds lgds rho z eps = Inr loss"
    and t: "length defaults = length pds" "loss_of_defaults defaults exposures lgds = Inr loss"
      "\<forall>i<length pds.
              (pds ! i = 0 \<longrightarrow> \<not> defaults ! i) \<and>
              (pds ! i = 1 \<and> 0 \<le> rho \<and> rho \<le> 1 \<longrightarrow> defaults ! i)"
    by blast
  from Suc [of g2] obtain losses g3
    where r: "simulate E probit exposures pds lgds rho n g2 = (Inr losses, g3)"
      and len: "length losses = n"
      and all: "\<forall>loss\<in>set losses. \<exists>defaults.
              length defaults = length pds \<and>
              loss_of_defaults defaults exposures lgds = Inr loss \<and>
              (\<forall>i<length pds.
                 (pds ! i = 0 \<longrightarrow> \<not> defaults ! i) \<and>
                 (pds ! i = 1 \<and> 0 \<le> rho \<and> rho \<le> 1 \<longrightarrow> defaults ! i))"
    by blast
  have s: "simulate E probit exposures pds lgds rho (Suc n) g = (Inr (loss # losses), g3)"
    by (simp add: d1 d2 l r)
  have "\<forall>loss'\<in>set (loss # losses). \<exists>defaults.
              length defaults = length pds \<and>
              loss_of_defaults defaults exposures lgds = Inr loss' \<and>
              (\<forall>i<length pds.
                 (pds ! i = 0 \<longrightarrow> \<not> defaults ! i) \<and>
                 (pds ! i = 1 \<and> 0 \<le> rho \<and> rho \<le> 1 \<longrightarrow> defaults ! i))"
    using t all by (metis set_ConsD)
  with s len show ?case by (intro exI [of _ "loss # losses"] exI [of _ g3]) simp
qed

section \<open>The traffic-light boundaries\<close>

text \<open>
  C1 (as the code has it). The boundaries are the thresholds the code computes,
  \<open>expected_rate * 2\<close> and \<open>expected_rate * 1.5\<close> rounded to float64. For every
  rounding that is monotone and keeps 0: when the exception rate equals the computed
  2x threshold the status is RED. When it equals the computed 1.5x threshold the status
  is not GREEN, since GREEN needs a rate strictly below that threshold; it is YELLOW
  whenever the 1.5x threshold is below the 2x threshold.
\<close>

theorem var_backtest_boundaries:
  assumes "var_backtest rnd returns var_series confidence = Inr r"
    and "mono rnd" and "rnd 0 = 0"
  shows "(exception_rate r = Fin (rnd (expected_rate r * 2)) \<longrightarrow> status r = RED) \<and>
         (exception_rate r = Fin (rnd (expected_rate r * 1.5)) \<longrightarrow>
            status r \<noteq> GREEN \<and>
            (rnd (expected_rate r * 1.5) < rnd (expected_rate r * 2) \<longrightarrow> status r = YELLOW))"
proof -
  from assms(1) have len: "length returns = length var_series"
    by (simp add: var_backtest_def split: if_splits)
  define scored where "scored = filter (\<lambda>(r, v). v \<noteq> NaN) (zip returns var_series)"
  define k where
    "k = length (filter (\<lambda>(a, p). fl_lt (Fin a) (fl_neg p)) (zip (map fst scored) (map snd scored)))"
  define rate where
    "rate = (if length scored = 0 then NaN else Fin (rnd (real k / real (length scored))))"
  define e where "e = rnd (1 - rnd confidence)"
  from assms(1) len have rate: "exception_rate r = rate" and er: "expected_rate r = e"
    and st: "status r = (if fl_lt rate (Fin (rnd (e * 1.5))) then GREEN
                         else if fl_lt rate (Fin (rnd (e * 2))) then YELLOW
                         else RED)"
    by (auto simp: var_backtest_def Let_def scored_def k_def rate_def e_def)
  have nonneg: "0 \<le> x" if "rate = Fin x" for x
  proof -
    from that have "x = rnd (real k / real (length scored))"
      by (auto simp: rate_def split: if_splits)
    moreover have "rnd 0 \<le> rnd (real k / real (length scored))"
      by (rule monoD [OF assms(2)]) simp
    ultimately show ?thesis using assms(3) by simp
  qed
  have ord: "rnd (e * 1.5) \<le> rnd (e * 2)" if "rate = Fin (rnd (e * 2))"
  proof (cases "0 \<le> e")
    case True
    then have "e * 1.5 \<le> e * 2" by simp
    then show ?thesis by (rule monoD [OF assms(2)])
  next
    case False
    then have "e * 2 \<le> 0" "e * 1.5 \<le> 0" by simp_all
    then have "rnd (e * 2) \<le> rnd 0" "rnd (e * 1.5) \<le> rnd 0"
      by (simp_all only: monoD [OF assms(2)])
    with nonneg [OF that] assms(3) show ?thesis by simp
  qed
  have red: "status r = RED" if "rate = Fin (rnd (e * 2))"
    using ord [OF that] that by (simp add: st)
  have ngreen: "status r \<noteq> GREEN" if "rate = Fin (rnd (e * 1.5))"
    using that by (simp add: st)
  have yellow: "status r = YELLOW" if "rate = Fin (rnd (e * 1.5))" "rnd (e * 1.5) < rnd (e * 2)"
    using that by (simp add: st)
  from red ngreen yellow show ?thesis
    unfolding rate er by blast
qed

theorem var_backtest_boundaries_witness:
  "var_backtest round64 [- 1, - 1, - 1, - 1, 1]
      [Fin (1/2), Fin (1/2), Fin (1/2), Fin (1/2), Fin (1/2)] (3/5)
     = Inr \<lparr>exceptions = 4, total_days = 5,
            exception_rate = Fin (3602879701896397 / 4503599627370496),
            expected_rate = 3602879701896397 / 9007199254740992, status = RED\<rparr>
   \<and> round64 (3602879701896397 / 9007199254740992 * 2) = 3602879701896397 / 4503599627370496
   \<and> var_backtest round64 [- 1, - 1, - 1, 1] [Fin (1/2), Fin (1/2), Fin (1/2), Fin (1/2)] (1/2)
     = Inr \<lparr>exceptions = 3, total_days = 4, exception_rate = Fin (3/4),
            expected_rate = 1/2, status = YELLOW\<rparr>
   \<and> round64 (1/2 * 1.5) = 3/4 \<and> round64 (1/2 * 1.5) < round64 (1/2 * 2)"
proof -
  let ?vs5 = "[Fin (1/2), Fin (1/2), Fin (1/2), Fin (1/2), Fin (1/2)]"
  let ?vs4 = "[Fin (1/2), Fin (1/2), Fin (1/2), Fin (1/2)]"
  let ?ra = "\<lparr>exceptions = 4, total_days = 5,
            exception_rate = Fin (3602879701896397 / 4503599627370496),
            expected_rate = 3602879701896397 / 9007199254740992, status = RED\<rparr>"
  let ?rb = "\<lparr>exceptions = 3, total_days = 4, exception_rate = Fin (3/4),
            expected_rate = 1/2, status = YELLOW\<rparr>"
  have m: "mono round64" by (rule monoI) (rule round64_mono)
  have a: "var_backtest round64 [- 1, - 1, - 1, - 1, 1] ?vs5 (3/5) = Inr ?ra"
    by (simp add: var_backtest_def Let_def round64_values)
  have b: "var_backtest round64 [- 1, - 1, - 1, 1] ?vs4 (1/2) = Inr ?rb"
    by (simp add: var_backtest_def Let_def round64_values)
  have t: "round64 (3602879701896397 / 9007199254740992 * 2) = 3602879701896397 / 4503599627370496"
    "round64 (1/2 * 1.5) = 3/4" "round64 (1/2 * 2) = 1"
    by (simp_all add: round64_values)
  from var_backtest_boundaries [OF a m round64_zero] var_backtest_boundaries [OF b m round64_zero]
  have "status ?ra = RED" "status ?rb = YELLOW"
    using t by simp_all
  with a b t show ?thesis by simp
qed

text \<open>
  C1 (as stated) fails: with confidence \<open>0.5\<close> and three exceptions in four scored
  days every value is a float, the exception rate \<open>0.75\<close> is exactly 1.5 times the
  expected rate \<open>0.5\<close>, and the status is YELLOW, not GREEN.
\<close>

theorem var_backtest_green_boundary_counterexample:
  "var_backtest round64 [- 1, - 1, - 1, 1] [Fin (1/2), Fin (1/2), Fin (1/2), Fin (1/2)] (1/2)
     = Inr \<lparr>exceptions = 3, total_days = 4, exception_rate = Fin (3/4),
            expected_rate = 1/2, status = YELLOW\<rparr>
   \<and> (3/4 :: real) = 1/2 * 1.5 \<and> round64 (1/2 * 1.5) = 3/4"
  by (simp add: var_backtest_def Let_def round64_values)

text \<open>
  The thresholds are those of the floats, not of the decimals: at confidence \<open>0.95\<close> the
  expected rate is \<open>1 - 0.95 = 0.05000000000000004\<close>, so a rate of \<open>3/40 = 0.075\<close> is
  below the 1.5x threshold (GREEN) and a rate of \<open>4/40 = 0.1\<close> is below the 2x threshold
  (YELLOW).
\<close>

lemma var_backtest_at_095:
  "var_backtest round64 (replicate 3 (- 1) @ replicate 37 1) (replicate 40 (Fin (1/2))) (19/20)
     = Inr \<lparr>exceptions = 3, total_days = 40,
            exception_rate = Fin (5404319552844595 / 72057594037927936),
            expected_rate = 225179981368525 / 4503599627370496, status = GREEN\<rparr>
   \<and> var_backtest round64 (replicate 4 (- 1) @ replicate 36 1) (replicate 40 (Fin (1/2))) (19/20)
     = Inr \<lparr>exceptions = 4, total_days = 40,
            exception_rate = Fin (3602879701896397 / 36028797018963968),
            expected_rate = 225179981368525 / 4503599627370496, status = YELLOW\<rparr>"
  by (simp add: var_backtest_def Let_def r_095 r_005 r_0075 r_010 r_3_40 r_1_10 numeral_eq_Suc)

section \<open>Expected shortfall\<close>

text \<open>
  C7. For a non-empty return series and a confidence in \<open>[0, 1]\<close>,
  \<open>expected_shortfall\<close> obtains the historical VaR (holding period 1) and returns the
  mean magnitude of the returns strictly below \<open>-var\<close>; when there is no such return
  it returns the VaR itself, and in neither case an error.
\<close>

theorem expected_shortfall_tail_mean:
  assumes "returns \<noteq> []" and "0 \<le> confidence" and "confidence \<le> 1"
  shows "\<exists>var. historical_var returns confidence 1 = Inr (Fin var) \<and>
           expected_shortfall returns confidence =
             Inr (Fin (let tail = filter (\<lambda>r. r < - var) returns
                       in if tail = [] then var
                          else sum_list (map abs tail) / real (length tail)))"
proof -
  define v where "v = \<bar>percentile_fin returns ((1 - confidence) * 100)\<bar>"
  define tail where "tail = filter (\<lambda>r. r < - v) returns"
  have v0: "0 \<le> v" by (simp add: v_def)
  have neg: "\<forall>x\<in>set tail. x < 0" using v0 by (auto simp: tail_def)
  from expected_shortfall_fin [OF assms]
  have "historical_var returns confidence 1 = Inr (Fin v)"
    and "expected_shortfall returns confidence =
           Inr (Fin (if tail = [] then v else \<bar>sum_list tail / real (length tail)\<bar>))"
    by (simp_all only: v_def tail_def)
  then show ?thesis
    using sum_list_abs_neg [OF neg]
    by (intro exI [of _ v]) (simp add: Let_def tail_def [symmetric])
qed

theorem expected_shortfall_tail_mean_witness:
  "expected_shortfall [- 1/20, 1/50, - 3/100, 1/100, - 2/25, 1/25] (19/20) = Inr (Fin (2/25))"
proof -
  let ?rs = "[- 1/20, 1/50, - 3/100, 1/100, - 2/25, 1/25] :: real list"
  from expected_shortfall_tail_mean [of ?rs "19/20"]
  obtain var where hv: "historical_var ?rs (19/20) 1 = Inr (Fin var)"
    and es: "expected_shortfall ?rs (19/20) =
             Inr (Fin (let tail = filter (\<lambda>r. r < - var) ?rs
                       in if tail = [] then var
                          else sum_list (map abs tail) / real (length tail)))"
    by auto
  have "historical_var ?rs (19/20) 1 = Inr (Fin (29/400))"
    by (simp add: historical_var_def percentile_eval)
  with hv have "var = 29/400" by simp
  with es show ?thesis by simp
qed

section \<open>Rolling VaR\<close>

text \<open>
  C8. For a return series of length \<open>n\<close>, a window \<open>W > 0\<close> and a confidence in
  \<open>[0, 1]\<close>, \<open>rolling_var\<close> returns a series of length \<open>n\<close>; its entries below
  index \<open>W\<close> are NaN (undefined), and its entry at each index \<open>i \<ge> W\<close> is the
  historical VaR of the observations at indices \<open>i - W\<close> to \<open>i - 1\<close>, without the
  observation at \<open>i\<close>.
\<close>

theorem rolling_var_trailing_window:
  assumes "0 < window" and "0 \<le> confidence" and "confidence \<le> 1"
  shows "\<exists>var_series. rolling_var returns window confidence = Inr var_series \<and>
           length var_series = length returns \<and>
           (\<forall>i<length returns.
              if int i < window then var_series ! i = NaN
              else var_series ! i \<noteq> NaN \<and>
                   historical_var (map ((!) returns) [i - nat window..<i]) confidence 1
                     = Inr (var_series ! i))"
proof -
  have rng: "\<forall>i\<in>set [window..int (length returns) - 1]. window \<le> i \<and> i < int (length returns)"
    by simp
  from rolling_loop_ok [OF assms rng, of "replicate (length returns) NaN"]
  obtain vs where r: "rolling_var returns window confidence = Inr vs"
    and l: "length vs = length returns"
    and v: "\<forall>j<length returns. vs ! j =
              (if int j \<in> set [window..int (length returns) - 1]
               then Fin (window_var returns (nat window) confidence j)
               else replicate (length returns) NaN ! j)"
    by (auto simp: rolling_var_def Let_def)
  have "if int i < window then vs ! i = NaN
        else vs ! i \<noteq> NaN \<and>
             historical_var (map ((!) returns) [i - nat window..<i]) confidence 1 = Inr (vs ! i)"
    if i: "i < length returns" for i
  proof (cases "int i < window")
    case True
    with v i show ?thesis by simp
  next
    case False
    then have w: "0 < nat window" "nat window \<le> i" using assms(1) by linarith+
    from False v i have "vs ! i = Fin (window_var returns (nat window) confidence i)" by simp
    with False historical_var_window [OF w assms(2,3)] show ?thesis by simp
  qed
  with r l show ?thesis by blast
qed

theorem rolling_var_trailing_window_witness:
  "rolling_var [- 1/20, 1/50, - 3/100] 2 (19/20) = Inr [NaN, NaN, Fin (93/2000)]"
proof -
  let ?rs = "[- 1/20, 1/50, - 3/100] :: real list"
  have c: "(0::int) < 2" "(0::real) \<le> 19/20" "(19/20::real) \<le> 1" by simp_all
  from rolling_var_trailing_window [OF c, of ?rs]
  obtain vs where r: "rolling_var ?rs 2 (19/20) = Inr vs" and l: "length vs = length ?rs"
    and v: "\<forall>i<length ?rs. if int i < 2 then vs ! i = NaN
              else vs ! i \<noteq> NaN \<and>
                   historical_var (map ((!) ?rs) [i - nat 2..<i]) (19/20) 1 = Inr (vs ! i)"
    by blast
  from v have v0: "vs ! 0 = NaN" and v1: "vs ! 1 = NaN"
    and v2: "historical_var (map ((!) ?rs) [2 - nat 2..<2]) (19/20) 1 = Inr (vs ! 2)"
    by (auto dest: spec [of _ 0] spec [of _ 1] spec [of _ 2])
  have "map ((!) ?rs) [2 - nat 2..<2] = [- 1/20, 1/50]"
    by (simp add: upt_rec numeral_2_eq_2)
  with v2 have "historical_var [- 1/20, 1/50] (19/20) 1 = Inr (vs ! 2)" by simp
  then have v2': "vs ! 2 = Fin (93/2000)"
    by (simp add: historical_var_def percentile_eval)
  have "vs = [vs ! 0, vs ! 1, vs ! 2]"
    using l by (intro nth_equalityI) (auto simp: less_Suc_eq numeral_3_eq_3 numeral_2_eq_2)
  with r v0 v1 v2' show ?thesis by simp
qed

section \<open>Sign of the VaR estimators\<close>

text \<open>
  C2 (as the code has it). \<open>historical_var\<close> and \<open>monte_carlo_var\<close> end in an absolute
  value: whenever they return, the result is a non-negative number or NaN.
  \<open>portfolio_var\<close> is a non-negative number or NaN when the normal quantile at the
  confidence is non-negative and the portfolio value is non-negative. \<open>parametric_var\<close>
  takes no absolute value and is left out.
\<close>

theorem var_estimators_sign:
  "(\<forall>x. historical_var returns confidence holding_period = Inr x \<longrightarrow> x = NaN \<or> fl_nonneg x) \<and>
   (\<forall>x. fst (monte_carlo_var E g returns n_sims confidence holding_period) = Inr x
        \<longrightarrow> x = NaN \<or> fl_nonneg x) \<and>
   (\<forall>x. portfolio_var probit weights cov_matrix confidence portfolio_value = Inr x \<and>
        fl_nonneg (norm_ppf probit confidence) \<and> 0 \<le> portfolio_value
        \<longrightarrow> x = NaN \<or> fl_nonneg x)"
proof (intro conjI allI impI)
  fix x assume "historical_var returns confidence holding_period = Inr x"
  then show "x = NaN \<or> fl_nonneg x" by (rule historical_var_abs)
next
  fix x assume "fst (monte_carlo_var E g returns n_sims confidence holding_period) = Inr x"
  then show "x = NaN \<or> fl_nonneg x" by (rule monte_carlo_var_abs)
next
  fix x assume "portfolio_var probit weights cov_matrix confidence portfolio_value = Inr x \<and>
        fl_nonneg (norm_ppf probit confidence) \<and> 0 \<le> portfolio_value"
  then show "x = NaN \<or> fl_nonneg x" using portfolio_var_sign by blast
qed

theorem var_estimators_sign_witness:
  "historical_var [- 1/20, 1/50, - 3/100, 1/100, - 2/25, 1/25] (19/20) 1 = Inr (Fin (29/400)) \<and>
   fl_nonneg (Fin (29/400)) \<and>
   fst (monte_carlo_var legacy_seed42 0 [0, 2] 4 (19/20) 1)
     = Inr (Fin (0.956982466956177944)) \<and>
   fl_nonneg (Fin (0.956982466956177944)) \<and>
   (\<forall>probit. portfolio_var probit [1/2, 1/2] [[1, 1], [1, 1]] 1 1000000 = Inr PInf) \<and>
   fl_nonneg PInf"
proof -
  let ?rs = "[- 1/20, 1/50, - 3/100, 1/100, - 2/25, 1/25] :: real list"
  have h: "historical_var ?rs (19/20) 1 = Inr (Fin (29/400))"
    by (simp add: historical_var_def percentile_eval)
  have m: "fst (monte_carlo_var legacy_seed42 0 [0, 2] 4 (19/20) 1)
     = Inr (Fin (0.956982466956177944))"
    by (simp add: monte_carlo_var_def legacy_seed42_def seed42_normals_def np_mean_def np_std_def
        percentile_eval numeral_eq_Suc power2_eq_square)
  have p: "portfolio_var probit [1/2, 1/2] [[1, 1], [1, 1]] 1 1000000 = Inr PInf" for probit
    by (simp add: portfolio_var_def quadratic_form_def norm_ppf_def np_sqrt_def Let_def
        upt_rec numeral_2_eq_2)
  have z: "fl_nonneg (norm_ppf probit 1)" for probit
    by (simp add: norm_ppf_def)
  have "fl_nonneg (Fin (29/400))"
    using var_estimators_sign [of ?rs "19/20" 1, THEN conjunct1, rule_format, OF h] by simp
  moreover have "fl_nonneg (Fin (0.956982466956177944))"
    using var_estimators_sign [of "[0, 2]" "19/20" 1 legacy_seed42 0 4,
        THEN conjunct2, THEN conjunct1, rule_format, OF m] by simp
  moreover have "fl_nonneg PInf"
    using var_estimators_sign [of _ 1 _ _ _ _ "\<lambda>p. 0" "[1/2, 1/2]" "[[1, 1], [1, 1]]" 1000000,
        THEN conjunct2, THEN conjunct2, rule_format, of PInf] p z by simp
  ultimately show ?thesis
    using h m p by simp
qed

text \<open>
  C2 (as stated) fails for \<open>parametric_var\<close>: on the constant series \<open>[0.1, 0.1]\<close>
  the deviation is 0 and the result is \<open>-0.1\<close>, whatever the quantile.
\<close>

theorem parametric_var_negative_counterexample:
  "\<forall>probit. parametric_var probit [1/10, 1/10] (19/20) 1 = Fin (- 1/10)"
  by (simp add: parametric_var_def np_mean_def np_std_def norm_ppf_def np_sqrt_def Let_def)

section \<open>Degenerate inputs of the VaR estimators\<close>

text \<open>
  C4 (as the code has it). The estimators validate nothing. For a non-empty series and a
  confidence in \<open>[0, 1]\<close>, a holding period of 0 makes \<open>historical_var\<close> and
  \<open>monte_carlo_var\<close> (with at least one scenario) return 0, and a negative one makes
  \<open>historical_var\<close> return NaN. A series of one observation gives the magnitude of that
  scaled observation. \<open>portfolio_var\<close> returns a value for every square matrix of the
  size of the weights, singular or not. Only the empty series makes \<open>historical_var\<close>
  fail, with the error of the percentile.
\<close>

theorem var_estimators_degenerate:
  "(returns \<noteq> [] \<and> 0 \<le> confidence \<and> confidence \<le> 1 \<longrightarrow>
      historical_var returns confidence 0 = Inr (Fin 0) \<and>
      (0 < n_sims \<longrightarrow> fst (monte_carlo_var E g returns n_sims confidence 0) = Inr (Fin 0)) \<and>
      (holding_period < 0 \<longrightarrow> historical_var returns confidence holding_period = Inr NaN)) \<and>
   (0 \<le> confidence \<and> confidence \<le> 1 \<and> 0 \<le> holding_period \<longrightarrow>
      historical_var [r] confidence holding_period = Inr (Fin \<bar>r * sqrt holding_period\<bar>)) \<and>
   (length cov_matrix = length weights \<and>
    list_all (\<lambda>row. length row = length weights) cov_matrix \<longrightarrow>
      (\<exists>x. portfolio_var probit weights cov_matrix confidence portfolio_value = Inr x)) \<and>
   (\<exists>e. historical_var [] confidence holding_period = Inl e)"
  using historical_var_zero_period [of returns confidence]
    monte_carlo_var_zero_period [of returns n_sims confidence E g]
    historical_var_negative_period [of returns confidence holding_period]
    historical_var_single [of confidence holding_period r]
    portfolio_var_no_check [of cov_matrix weights probit confidence portfolio_value]
    historical_var_empty [of confidence holding_period]
  by simp

theorem var_estimators_degenerate_witness:
  "historical_var [- 1/20, 1/50] (19/20) 0 = Inr (Fin 0) \<and>
   fst (monte_carlo_var legacy_seed42 0 [- 1/20, 1/50] 4 (19/20) 0) = Inr (Fin 0) \<and>
   historical_var [- 1/20, 1/50] (19/20) (- 1) = Inr NaN \<and>
   historical_var [- 1/20] (19/20) 4 = Inr (Fin (1/10)) \<and>
   (\<exists>x. portfolio_var (\<lambda>p. 0) [1/2, 1/2] [[1, 1], [1, 1]] (19/20) 1000000 = Inr x) \<and>
   (\<exists>e. historical_var [] (19/20) 4 = Inl e)"
proof -
  have a: "historical_var [- 1/20, 1/50] (19/20) 0 = Inr (Fin 0) \<and>
     fst (monte_carlo_var legacy_seed42 0 [- 1/20, 1/50] 4 (19/20) 0) = Inr (Fin 0) \<and>
     historical_var [- 1/20, 1/50] (19/20) (- 1) = Inr NaN"
    using var_estimators_degenerate [of "[- 1/20, 1/50]" "19/20" 4 legacy_seed42 0 "- 1"
        "- 1/20" "[[1, 1], [1, 1]]" "[1/2, 1/2]" "\<lambda>p. 0" 1000000]
    by simp
  have b: "historical_var [- 1/20] (19/20) 4 = Inr (Fin (1/10)) \<and>
     (\<exists>x. portfolio_var (\<lambda>p. 0) [1/2, 1/2] [[1, 1], [1, 1]] (19/20) 1000000 = Inr x) \<and>
     (\<exists>e. historical_var [] (19/20) 4 = Inl e)"
    using var_estimators_degenerate [of "[- 1/20, 1/50]" "19/20" 4 legacy_seed42 0 4
        "- 1/20" "[[1, 1], [1, 1]]" "[1/2, 1/2]" "\<lambda>p. 0" 1000000]
    by simp
  from a b show ?thesis by simp
qed

text \<open>
  C4 (as stated) fails: a holding period of 0 on a series of one observation returns 0,
  and the singular matrix of ones returns the quantile times the portfolio value.
\<close>

theorem var_estimators_degenerate_counterexample:
  "historical_var [- 1/20] (19/20) 0 = Inr (Fin 0) \<and>
   (\<forall>probit. portfolio_var probit [1/2, 1/2] [[1, 1], [1, 1]] (19/20) 1000000
      = Inr (Fin (probit (19/20) * 1000000)))"
  by (simp add: historical_var_def percentile_eval portfolio_var_def quadratic_form_def
      norm_ppf_def upt_rec numeral_2_eq_2)

section \<open>Ordering of the credit loss statistics\<close>

text \<open>
  C3 (as the code has it). For aligned arrays, at least one trial and a confidence in
  \<open>[0, 1]\<close>, \<open>credit_var\<close> returns three finite numbers with
  \<open>worst_case \<ge> credit_var\<close>: a percentile of the loss sample lies between two of its
  values. No order between \<open>expected_loss\<close> and the other two is stated.
\<close>

theorem credit_var_loss_ordering:
  assumes "length pds = length exposures" and "length lgds = length exposures"
    and "0 < n_sims" and "0 \<le> confidence" and "confidence \<le> 1"
  shows "\<exists>el var worst.
           fst (credit_var E probit g exposures pds lgds correlation n_sims confidence) =
             Inr \<lparr>expected_loss_out = Fin el, credit_var_out = Fin var, worst_case_out = Fin worst\<rparr>
           \<and> var \<le> worst"
  using assms by (rule credit_var_aligned)

theorem credit_var_loss_ordering_witness:
  "\<exists>el var worst.
     fst (credit_var legacy_seed42 (\<lambda>p. 0) 0 [1] [1/2] [1] 0 2 (1/4)) =
       Inr \<lparr>expected_loss_out = Fin el, credit_var_out = Fin var, worst_case_out = Fin worst\<rparr>
     \<and> var \<le> worst \<and> el = 1/2 \<and> var = 1/4 \<and> worst = 1"
proof -
  have h: "length [1/2::real] = length [1::real]" "length [1::real] = length [1::real]"
    "(0::int) < 2" "(0::real) \<le> 1/4" "(1/4::real) \<le> 1" by simp_all
  from credit_var_loss_ordering [OF h, of legacy_seed42 "\<lambda>p. 0" 0 0]
  obtain el var worst where
    r: "fst (credit_var legacy_seed42 (\<lambda>p. 0) 0 [1] [1/2] [1] 0 2 (1/4)) =
         Inr \<lparr>expected_loss_out = Fin el, credit_var_out = Fin var, worst_case_out = Fin worst\<rparr>"
    and o: "var \<le> worst" by blast
  have "fst (credit_var legacy_seed42 (\<lambda>p. 0) 0 [1] [1/2] [1] 0 2 (1/4)) =
     Inr \<lparr>expected_loss_out = Fin (1/2), credit_var_out = Fin (1/4), worst_case_out = Fin 1\<rparr>"
    by (simp add: credit_eval percentile_eval numeral_2_eq_2)
  with r have "el = 1/2" "var = 1/4" "worst = 1" by simp_all
  with r o show ?thesis by blast
qed

text \<open>
  C3 (as stated) fails: one counterparty with \<open>pd = 0.5\<close>, no correlation and two
  trials. The idiosyncratic deviates are the second and fourth of the stream, one
  negative and one positive, so the losses are \<open>[1, 0]\<close>: the mean is \<open>0.5\<close> and the
  25th percentile is \<open>0.25\<close>, below the mean.
\<close>

theorem credit_var_below_expected_loss_counterexample:
  "\<forall>probit. fst (credit_var legacy_seed42 probit 0 [1] [1/2] [1] 0 2 (1/4)) =
     Inr \<lparr>expected_loss_out = Fin (1/2), credit_var_out = Fin (1/4), worst_case_out = Fin 1\<rparr>"
  by (simp add: credit_eval percentile_eval numeral_2_eq_2)

section \<open>Parameters of the credit simulation\<close>

text \<open>
  C5 (as the code has it). \<open>credit_var\<close> fails whenever \<open>n_sims \<le> 0\<close>: the loss sample
  is empty and its percentile raises. The correlation is not checked: for every real
  correlation, with at least one trial, aligned arrays and a confidence in \<open>[0, 1]\<close>,
  a result is returned.
\<close>

theorem credit_var_parameter_checks:
  "(n_sims \<le> 0 \<longrightarrow>
      (\<exists>e. fst (credit_var E probit g exposures pds lgds correlation n_sims confidence) = Inl e)) \<and>
   (0 < n_sims \<and> length pds = length exposures \<and> length lgds = length exposures \<and>
    0 \<le> confidence \<and> confidence \<le> 1 \<longrightarrow>
      (\<exists>r. fst (credit_var E probit g exposures pds lgds correlation n_sims confidence) = Inr r))"
proof (intro conjI impI)
  assume "n_sims \<le> 0"
  then show "\<exists>e. fst (credit_var E probit g exposures pds lgds correlation n_sims confidence) = Inl e"
    by (rule credit_var_no_trials)
next
  assume a: "0 < n_sims \<and> length pds = length exposures \<and> length lgds = length exposures \<and>
    0 \<le> confidence \<and> confidence \<le> 1"
  then have "\<exists>el var worst.
           fst (credit_var E probit g exposures pds lgds correlation n_sims confidence) =
             Inr \<lparr>expected_loss_out = Fin el, credit_var_out = Fin var, worst_case_out = Fin worst\<rparr>
           \<and> var \<le> worst"
    by (intro credit_var_aligned) simp_all
  then show "\<exists>r. fst (credit_var E probit g exposures pds lgds correlation n_sims confidence) = Inr r"
    by blast
qed

theorem credit_var_parameter_checks_witness:
  "(\<exists>e. fst (credit_var legacy_seed42 (\<lambda>p. 0) 0 [1] [1/2] [1] (1/5) 0 (99/100)) = Inl e) \<and>
   (\<exists>r. fst (credit_var legacy_seed42 (\<lambda>p. 0) 0 [1] [1/2] [1] 2 2 (99/100)) = Inr r)"
  using credit_var_parameter_checks [of 0 legacy_seed42 "\<lambda>p. 0" 0 "[1]" "[1/2]" "[1]" "1/5" "99/100"]
    credit_var_parameter_checks [of 2 legacy_seed42 "\<lambda>p. 0" 0 "[1]" "[1/2]" "[1]" 2 "99/100"]
  by simp

text \<open>
  C5 (as stated) fails: with correlation 1, 2 or \<open>-1\<close> a result is returned. Outside
  \<open>[0, 1]\<close> a square root is NaN, every asset value is NaN and no counterparty
  defaults.
\<close>

theorem credit_var_correlation_counterexample:
  "\<forall>probit.
     fst (credit_var legacy_seed42 probit 0 [1] [1/2] [1] 1 2 (99/100)) =
       Inr \<lparr>expected_loss_out = Fin 0, credit_var_out = Fin 0, worst_case_out = Fin 0\<rparr> \<and>
     fst (credit_var legacy_seed42 probit 0 [1] [1/2] [1] 2 2 (99/100)) =
       Inr \<lparr>expected_loss_out = Fin 0, credit_var_out = Fin 0, worst_case_out = Fin 0\<rparr> \<and>
     fst (credit_var legacy_seed42 probit 0 [1] [1/2] [1] (- 1) 2 (99/100)) =
       Inr \<lparr>expected_loss_out = Fin 0, credit_var_out = Fin 0, worst_case_out = Fin 0\<rparr>"
  by (simp add: credit_eval percentile_eval numeral_2_eq_2)

section \<open>Default thresholds at the boundary probabilities\<close>

text \<open>
  C6 (as the code has it). For aligned arrays, at least one trial and a confidence in
  \<open>[0, 1]\<close>, \<open>credit_var\<close> returns without error, whatever the probabilities of
  default. Its three outputs are the mean, the percentile and the maximum of the trial
  losses, and every trial loss is the loss of a vector of default flags in which a
  counterparty with \<open>pd = 0\<close> (threshold \<open>-inf\<close>) does not default, and one with
  \<open>pd = 1\<close> (threshold \<open>+inf\<close>) defaults when the correlation is in \<open>[0, 1]\<close>.
\<close>

theorem boundary_pds_in_credit_var:
  assumes "length pds = length exposures" and "length lgds = length exposures"
    and "0 < n_sims" and "0 \<le> confidence" and "confidence \<le> 1"
  shows "\<exists>losses g' r.
           simulate E probit exposures pds lgds correlation (nat n_sims) (rng_seed E 42)
             = (Inr losses, g') \<and>
           length losses = nat n_sims \<and>
           credit_var E probit g exposures pds lgds correlation n_sims confidence = (Inr r, g') \<and>
           expected_loss_out r = np_mean losses \<and>
           np_percentile (map Fin losses) (confidence * 100) = Inr (credit_var_out r) \<and>
           np_max losses = Inr (worst_case_out r) \<and>
           (\<forall>loss\<in>set losses. \<exists>defaults.
              length defaults = length pds \<and>
              loss_of_defaults defaults exposures lgds = Inr loss \<and>
              (\<forall>i<length pds.
                 (pds ! i = 0 \<longrightarrow> \<not> defaults ! i) \<and>
                 (pds ! i = 1 \<and> 0 \<le> correlation \<and> correlation \<le> 1 \<longrightarrow> defaults ! i)))"
proof -
  from simulate_boundary [OF assms(1,2), of E probit correlation "nat n_sims" "rng_seed E 42"]
  obtain losses g' where
    s: "simulate E probit exposures pds lgds correlation (nat n_sims) (rng_seed E 42)
          = (Inr losses, g')"
    and len: "length losses = nat n_sims"
    and all: "\<forall>loss\<in>set losses. \<exists>defaults.
              length defaults = length pds \<and>
              loss_of_defaults defaults exposures lgds = Inr loss \<and>
              (\<forall>i<length pds.
                 (pds ! i = 0 \<longrightarrow> \<not> defaults ! i) \<and>
                 (pds ! i = 1 \<and> 0 \<le> correlation \<and> correlation \<le> 1 \<longrightarrow> defaults ! i))"
    by blast
  from len assms(3) have ne: "losses \<noteq> []" by auto
  from credit_var_of_losses [OF s ne assms(4,5), of g] obtain var worst where
    r: "credit_var E probit g exposures pds lgds correlation n_sims confidence =
             (Inr \<lparr>expected_loss_out = np_mean losses, credit_var_out = Fin var,
                   worst_case_out = Fin worst\<rparr>, g')"
    and p: "np_percentile (map Fin losses) (confidence * 100) = Inr (Fin var)"
    and m: "np_max losses = Inr (Fin worst)" by blast
  let ?r = "\<lparr>expected_loss_out = np_mean losses, credit_var_out = Fin var,
                   worst_case_out = Fin worst\<rparr>"
  from s len r p m all show ?thesis
    by (intro exI [of _ losses] exI [of _ g'] exI [of _ ?r]) simp
qed

theorem boundary_pds_in_credit_var_witness:
  "\<exists>losses g' r.
     simulate legacy_seed42 (\<lambda>p. 0) [1, 1] [0, 1] [1, 1] (1/4) (nat 1) (rng_seed legacy_seed42 42)
       = (Inr losses, g') \<and>
     credit_var legacy_seed42 (\<lambda>p. 0) 0 [1, 1] [0, 1] [1, 1] (1/4) 1 (99/100) = (Inr r, g') \<and>
     losses = [1] \<and>
     r = \<lparr>expected_loss_out = Fin 1, credit_var_out = Fin 1, worst_case_out = Fin 1\<rparr>"
proof -
  have h: "length [0, 1 :: real] = length [1, 1 :: real]" "length [1, 1 :: real] = length [1, 1 :: real]"
    "(0::int) < 1" "(0::real) \<le> 99/100" "(99/100::real) \<le> 1" by simp_all
  from boundary_pds_in_credit_var [OF h, of legacy_seed42 "\<lambda>p. 0" "1/4" 0]
  obtain losses g' r where
    s: "simulate legacy_seed42 (\<lambda>p. 0) [1, 1] [0, 1] [1, 1] (1/4) (nat 1) (rng_seed legacy_seed42 42)
          = (Inr losses, g')"
    and c: "credit_var legacy_seed42 (\<lambda>p. 0) 0 [1, 1] [0, 1] [1, 1] (1/4) 1 (99/100) = (Inr r, g')"
    and e: "expected_loss_out r = np_mean losses"
    and p: "np_percentile (map Fin losses) (99/100 * 100) = Inr (credit_var_out r)"
    and m: "np_max losses = Inr (worst_case_out r)"
    by blast
  have "simulate legacy_seed42 (\<lambda>p. 0) [1, 1] [0, 1] [1, 1] (1/4) (nat 1) (rng_seed legacy_seed42 42)
          = (Inr [1], 3)"
    by (simp add: credit_eval np_sqrt_def numeral_2_eq_2 numeral_3_eq_3)
  with s have l: "losses = [1]" by simp
  from e p m have "r = \<lparr>expected_loss_out = Fin 1, credit_var_out = Fin 1, worst_case_out = Fin 1\<rparr>"
    unfolding l by (cases r) (simp add: np_mean_def np_max_def percentile_eval)
  with s c l show ?thesis by blast
qed

text \<open>
  C6 (as stated) fails outside \<open>[0, 1]\<close>, where \<open>credit_var\<close> still runs: with
  correlation 2 the asset values are NaN, the comparison with \<open>+inf\<close> is false, and
  the counterparty with \<open>pd = 1\<close> defaults in no trial (both losses are 0).
\<close>

theorem always_default_outside_unit_correlation_counterexample:
  "\<forall>probit.
     fst (credit_var legacy_seed42 probit 0 [1] [1] [1] 2 2 (99/100)) =
       Inr \<lparr>expected_loss_out = Fin 0, credit_var_out = Fin 0, worst_case_out = Fin 0\<rparr> \<and>
     default_flags probit 2 [1] (seed42_normals 0) [seed42_normals 1] = Inr [False] \<and>
     default_flags probit 2 [1] (seed42_normals 2) [seed42_normals 3] = Inr [False]"
  by (simp add: credit_eval percentile_eval numeral_2_eq_2)

section \<open>Determinism\<close>

text \<open>
  C9. \<open>monte_carlo_var\<close> and \<open>credit_var\<close> reseed the generator before drawing, so
  their outputs (and the generator state they leave) do not depend on the state they
  find: two invocations with identical inputs, from any two generator states or one
  after the other, return the same. \<open>var_backtest\<close> reads no state at all: it is a
  function of its three arguments.
\<close>

theorem reseeded_runs_deterministic:
  "monte_carlo_var E g returns n_sims confidence holding_period
     = monte_carlo_var E g' returns n_sims confidence holding_period \<and>
   credit_var E probit g exposures pds lgds correlation n_trials level
     = credit_var E probit g' exposures pds lgds correlation n_trials level \<and>
   fst (monte_carlo_var E (snd (monte_carlo_var E g returns n_sims confidence holding_period))
          returns n_sims confidence holding_period)
     = fst (monte_carlo_var E g returns n_sims confidence holding_period) \<and>
   fst (credit_var E probit (snd (credit_var E probit g exposures pds lgds correlation n_trials level))
          exposures pds lgds correlation n_trials level)
     = fst (credit_var E probit g exposures pds lgds correlation n_trials level)"
  by (simp add: monte_carlo_var_def credit_var_def)

end
